theory Spec2Isabelle
  imports Main "HOL-Library.AList"
begin

section \<open>Python values, exceptions and strings\<close>

text \<open>
  Exceptions are values. Every constructor stands for a subclass of Python's
  \<open>Exception\<close>, which is what the \<open>except Exception\<close> clauses of the scrapers
  (and their bare \<open>except:\<close> clauses) catch.
\<close>

datatype exn = ValueError | OverflowError | AttributeError | TypeError | IndexError
  | OtherError string

text \<open>
  A Python \<open>str\<close> is modelled as a \<open>string\<close>: a list of characters with code
  points below 256. \<open>is_digit\<close> is the class \<open>\d\<close> on such characters and
  \<open>py_isspace\<close> the characters that \<open>str.strip()\<close> removes.
\<close>

definition is_digit :: "char \<Rightarrow> bool" where
  "is_digit c = (c \<in> set ''0123456789'')"

definition py_isspace :: "char \<Rightarrow> bool" where
  "py_isspace c = (of_char c \<in> {9, 10, 11, 12, 13, 28, 29, 30, 31, 32, 133, 160 :: nat})"

definition py_strip :: "string \<Rightarrow> string" where
  "py_strip s = rev (dropWhile py_isspace (rev (dropWhile py_isspace s)))"

definition digit_val :: "char \<Rightarrow> nat" where
  "digit_val c = of_char c - 48"

definition nat_of_digits :: "string \<Rightarrow> nat" where
  "nat_of_digits s = foldl (\<lambda>acc c. 10 * acc + digit_val c) 0 s"

section \<open>Binary64 floating point, as far as the scrapers use it\<close>

text \<open>
  \<open>Fin m e\<close> is the double \<open>m * 2 ^ e\<close>. \<open>to_double p q\<close> is the double nearest
  to the fraction \<open>p / q\<close> (53 bits of precision, ties to even, gradual underflow below
  \<open>2 ^ -1022\<close>, infinity from \<open>2 ^ 1024\<close> on): what \<open>float(str)\<close> and the
  product of two doubles return. The result is normalised: a mantissa that rounding
  carried to \<open>2 ^ 53\<close> becomes \<open>2 ^ 52\<close> with the next exponent, a normal number
  has a mantissa of 53 bits, and zero is \<open>Fin 0 0\<close>.
\<close>

datatype double = Fin int int | PInf | NInf | NaN

fun bitlen :: "nat \<Rightarrow> nat" where
  "bitlen n = (if n = 0 then 0 else Suc (bitlen (n div 2)))"

declare bitlen.simps [simp del]

definition ilog2 :: "nat \<Rightarrow> nat \<Rightarrow> int" where
  "ilog2 p q =
     (let e0 = int (bitlen p) - int (bitlen q)
      in if q * 2 ^ nat e0 \<le> p * 2 ^ nat (- e0) then e0 else e0 - 1)"

definition round_half_even :: "nat \<Rightarrow> nat \<Rightarrow> nat" where
  "round_half_even num den =
     (let m = num div den; r = num mod den
      in if den < 2 * r \<or> (2 * r = den \<and> odd m) then m + 1 else m)"

definition to_double :: "nat \<Rightarrow> nat \<Rightarrow> double" where
  "to_double p q =
     (if p = 0 then Fin 0 0
      else let u = max (ilog2 p q - 52) (- 1074);
               m = round_half_even (p * 2 ^ nat (- u)) (q * 2 ^ nat u);
               (m', u') = (if m = 2 ^ 53 then (2 ^ 52, u + 1) else (m, u))
           in if m' = 0 then Fin 0 0
              else if 0 \<le> u' \<and> 2 ^ 1024 \<le> m' * 2 ^ nat u' then PInf
              else Fin (int m') u')"

text \<open>
  \<open>float(s)\<close> for a text \<open>s\<close> over digits, the decimal point and letters, which is
  all that reaches it: the text is a literal when it has only digits and at most one
  point, and at least one digit; anything else raises \<open>ValueError\<close>.
\<close>

definition py_float :: "string \<Rightarrow> exn + double" where
  "py_float s =
     (let ip = takeWhile is_digit s; rest = dropWhile is_digit s;
          fp = (case rest of [] \<Rightarrow> [] | c # cs \<Rightarrow> cs)
      in if (rest = [] \<or> hd rest = CHR ''.'') \<and> list_all is_digit fp \<and> ip @ fp \<noteq> []
         then Inr (to_double (nat_of_digits (ip @ fp)) (10 ^ length fp))
         else Inl ValueError)"

text \<open>The product \<open>x * k\<close> of a non-negative double and a positive \<open>int\<close>
  (converted to a double exactly, as \<open>1000\<close> and \<open>1000000\<close> are).\<close>

fun mul_int :: "double \<Rightarrow> nat \<Rightarrow> double" where
  "mul_int (Fin m e) k = to_double (nat m * k * 2 ^ nat e) (2 ^ nat (- e))"
| "mul_int d k = d"

text \<open>\<open>int(x)\<close> truncates towards zero; infinities raise \<open>OverflowError\<close>,
  a NaN raises \<open>ValueError\<close>.\<close>

fun py_int_of_double :: "double \<Rightarrow> exn + int" where
  "py_int_of_double (Fin m e) =
     Inr (if 0 \<le> m then m * 2 ^ nat e div 2 ^ nat (- e)
          else - ((- m) * 2 ^ nat e div 2 ^ nat (- e)))"
| "py_int_of_double PInf = Inl OverflowError"
| "py_int_of_double NInf = Inl OverflowError"
| "py_int_of_double NaN = Inl ValueError"

section \<open>data\_analyzer.py: numeric coercion\<close>

text \<open>
  \<open>_extract_number_from_text\<close>. The result is \<open>Inr None\<close> for Python's
  \<open>None\<close>, \<open>Inr (Some n)\<close> for the integer \<open>n\<close>, and \<open>Inl e\<close> when the
  exception \<open>e\<close> leaves the function (only \<open>ValueError\<close> is caught).
\<close>

definition clean_text :: "string \<Rightarrow> string" where
  "clean_text text = filter (\<lambda>c. is_digit c \<or> c \<in> set ''.KMkm'') text"

definition ends_with_ci :: "string \<Rightarrow> char \<Rightarrow> char \<Rightarrow> bool" where
  "ends_with_ci s lo up = (s \<noteq> [] \<and> (last s = lo \<or> last s = up))"

definition extract_number_from_text :: "string \<Rightarrow> exn + int option" where
  "extract_number_from_text text =
     (if text = [] then Inr None
      else let c = clean_text text;
               (multiplier, c') =
                  (if ends_with_ci c (CHR ''k'') (CHR ''K'') then (1000, butlast c)
                   else if ends_with_ci c (CHR ''m'') (CHR ''M'') then (1000000, butlast c)
                   else (1::nat, c))
           in case py_float c' of
                Inl ValueError \<Rightarrow> Inr None
              | Inl e \<Rightarrow> Inl e
              | Inr x \<Rightarrow> (case py_int_of_double (mul_int x multiplier) of
                            Inl ValueError \<Rightarrow> Inr None
                          | Inl e \<Rightarrow> Inl e
                          | Inr n \<Rightarrow> Inr (Some n)))"

section \<open>Python dictionaries and values\<close>

text \<open>
  The values the scrapers store. A \<open>dict\<close> is an association list in insertion
  order, as Python keeps it: \<open>d[k] = v\<close> replaces the value of an existing key in
  place and appends a new key at the end.
\<close>

datatype pyval = VNone | VBool bool | VInt int | VFloat double | VStr string
  | VList "pyval list" | VDict "(string \<times> pyval) list"

type_synonym pydict = "(string \<times> pyval) list"

definition dict_set :: "string \<Rightarrow> pyval \<Rightarrow> pydict \<Rightarrow> pydict" where
  "dict_set k v d = AList.update k v d"

definition dict_get :: "pydict \<Rightarrow> string \<Rightarrow> pyval option" where
  "dict_get d k = map_of d k"

definition dict_keys :: "pydict \<Rightarrow> string list" where
  "dict_keys d = map fst d"

text \<open>\<open>d.update(e)\<close>: the items of \<open>e\<close> are stored one by one, in order.\<close>

definition dict_update :: "pydict \<Rightarrow> pydict \<Rightarrow> pydict" where
  "dict_update d e = foldl (\<lambda>acc kv. dict_set (fst kv) (snd kv) acc) d e"

text \<open>Truth value of a Python object, as \<open>if x:\<close> tests it.\<close>

fun truthy :: "pyval \<Rightarrow> bool" where
  "truthy VNone = False"
| "truthy (VBool b) = b"
| "truthy (VInt i) = (i \<noteq> 0)"
| "truthy (VFloat (Fin m e)) = (m \<noteq> 0)"
| "truthy (VFloat d) = True"
| "truthy (VStr s) = (s \<noteq> [])"
| "truthy (VList l) = (l \<noteq> [])"
| "truthy (VDict d) = (d \<noteq> [])"

section \<open>Regular expressions\<close>

text \<open>
  The patterns of the scrapers, as syntax trees, and Python's backtracking search over
  them. \<open>ms r st\<close> lists the ways \<open>r\<close> can match at the state \<open>st\<close> (characters
  consumed so far, remaining text, groups captured), in the order in which \<open>re\<close> tries
  them: a greedy \<open>Star\<close> prefers one more iteration, a \<open>Lazy\<close> one prefers to
  stop, \<open>Alt\<close> prefers its left branch. Characters are code points below 256, so the
  members of a pattern's character class beyond that range are left out of its tree:
  they match no character of such a text.
\<close>

datatype re = Lit string | Cls "char \<Rightarrow> bool" | Cat re re | Alt re re
  | Star re | Lazy re | Grp nat re | Bol

type_synonym mstate = "nat \<times> string \<times> (nat \<times> string) list"

definition rest_len :: "mstate \<Rightarrow> nat" where
  "rest_len st = length (fst (snd st))"

function ms :: "re \<Rightarrow> mstate \<Rightarrow> mstate list" where
  "ms (Lit w) st =
     (case st of (n, s, c) \<Rightarrow>
        if take (length w) s = w then [(n + length w, drop (length w) s, c)] else [])"
| "ms (Cls p) st =
     (case st of (n, s, c) \<Rightarrow>
        (case s of [] \<Rightarrow> [] | x # xs \<Rightarrow> if p x then [(Suc n, xs, c)] else []))"
| "ms (Cat a b) st = concat (map (ms b) (ms a st))"
| "ms (Alt a b) st = ms a st @ ms b st"
| "ms (Star a) st =
     concat (map (\<lambda>st'. if rest_len st' < rest_len st then ms (Star a) st' else [])
                 (ms a st)) @ [st]"
| "ms (Lazy a) st =
     st # concat (map (\<lambda>st'. if rest_len st' < rest_len st then ms (Lazy a) st' else [])
                      (ms a st))"
| "ms (Grp i a) st =
     map (\<lambda>st'. (fst st', fst (snd st'),
                  AList.update i (take (fst st' - fst st) (fst (snd st))) (snd (snd st'))))
         (ms a st)"
| "ms Bol st = (if fst st = 0 then [st] else [])"
  by pat_completeness auto
termination
  by (relation "measures [\<lambda>(r, st). size r, \<lambda>(r, st). rest_len st]") auto

declare ms.simps [simp del]

text \<open>\<open>re.search(r, s)\<close>: the first way to match at the leftmost position that has
  one. The result is the whole match and the captured groups.\<close>

type_synonym rmatch = "string \<times> (nat \<times> string) list"

fun re_search_from :: "re \<Rightarrow> nat \<Rightarrow> string \<Rightarrow> rmatch option" where
  "re_search_from r n s =
     (case ms r (n, s, []) of
        st # _ \<Rightarrow> Some (take (fst st - n) s, snd (snd st))
      | [] \<Rightarrow> (case s of [] \<Rightarrow> None | x # xs \<Rightarrow> re_search_from r (Suc n) xs))"

declare re_search_from.simps [simp del]

definition re_search :: "re \<Rightarrow> string \<Rightarrow> rmatch option" where
  "re_search r s = re_search_from r 0 s"

text \<open>\<open>m.group(i)\<close> for a group that took part in the match.\<close>

definition group :: "rmatch \<Rightarrow> nat \<Rightarrow> string" where
  "group m i = (case map_of (snd m) i of Some g \<Rightarrow> g | None \<Rightarrow> [])"

text \<open>\<open>re.findall(r, s)\<close> for a pattern with two groups: the pairs of groups of
  the successive non-overlapping matches, from the left.\<close>

function re_findall_from :: "re \<Rightarrow> nat \<Rightarrow> string \<Rightarrow> (string \<times> string) list" where
  "re_findall_from r n s =
     (case ms r (n, s, []) of
        st # _ \<Rightarrow>
          (group ([], snd (snd st)) 1, group ([], snd (snd st)) 2) #
          (if rest_len st < length s then re_findall_from r (fst st) (fst (snd st))
           else (case s of [] \<Rightarrow> [] | x # xs \<Rightarrow> re_findall_from r (Suc n) xs))
      | [] \<Rightarrow> (case s of [] \<Rightarrow> [] | x # xs \<Rightarrow> re_findall_from r (Suc n) xs))"
  by pat_completeness auto
termination
  by (relation "measure (\<lambda>(r, n, s). length s)") (auto simp: rest_len_def)

declare re_findall_from.simps [simp del]

definition re_findall :: "re \<Rightarrow> string \<Rightarrow> (string \<times> string) list" where
  "re_findall r s = re_findall_from r 0 s"

definition Plus :: "re \<Rightarrow> re" where
  "Plus r = Cat r (Star r)"

definition Opt :: "re \<Rightarrow> re" where
  "Opt r = Alt r (Lit [])"

definition re_digit :: re where
  "re_digit = Cls is_digit"

definition re_space :: re where
  "re_space = Cls py_isspace"

section \<open>The parsed document\<close>

text \<open>
  A \<open>BeautifulSoup\<close> tag (the document itself is one). Its attributes hold a
  string, or a list of strings for a multi-valued attribute such as \<open>class\<close>;
  \<open>strings\<close> are the text fragments below the tag that \<open>get_text\<close> joins, in
  document order. The library's searches are the two functions of the tag:
  \<open>run_query\<close> answers \<open>select\<close>, \<open>find_all\<close> and their first-match forms with
  the matching tags in document order, \<open>find_string\<close> answers
  \<open>find(string=re.compile(p, flags))\<close> with the text of the first matching string and
  its parent tag. Either may raise: the answer is then \<open>Inl\<close> of the exception.
\<close>

datatype attrval = AStr string | AList "string list"

datatype attr_filter = AttrIs string | AttrTrue | AttrRe string | AttrHas string

datatype query = Css string | Find string "(string \<times> attr_filter) list" "string option"

datatype node = Node
  (tag_name: string)
  (attrs: "(string \<times> attrval) list")
  (strings: "string list")
  (run_query: "query \<Rightarrow> exn + node list")
  (find_string: "string \<Rightarrow> bool \<Rightarrow> exn + (string \<times> node option) option")

definition first_of :: "exn + 'a list \<Rightarrow> exn + 'a option" where
  "first_of r = (case r of Inl e \<Rightarrow> Inl e | Inr [] \<Rightarrow> Inr None | Inr (x # xs) \<Rightarrow> Inr (Some x))"

definition select :: "node \<Rightarrow> string \<Rightarrow> exn + node list" where
  "select n css = run_query n (Css css)"

definition select_one :: "node \<Rightarrow> string \<Rightarrow> exn + node option" where
  "select_one n css = first_of (run_query n (Css css))"

definition find_all :: "node \<Rightarrow> string \<Rightarrow> (string \<times> attr_filter) list \<Rightarrow> string option
    \<Rightarrow> exn + node list" where
  "find_all n name flt pat = run_query n (Find name flt pat)"

definition find_tag :: "node \<Rightarrow> string \<Rightarrow> (string \<times> attr_filter) list \<Rightarrow> string option
    \<Rightarrow> exn + node option" where
  "find_tag n name flt pat = first_of (run_query n (Find name flt pat))"

text \<open>\<open>tag.get_text()\<close> and \<open>tag.get_text(strip=True)\<close>: the second strips every
  fragment, drops the empty ones and joins the rest without a separator.\<close>

definition get_text :: "node \<Rightarrow> string" where
  "get_text n = concat (strings n)"

definition get_text_strip :: "node \<Rightarrow> string" where
  "get_text_strip n = concat (filter (\<lambda>s. s \<noteq> []) (map py_strip (strings n)))"

text \<open>\<open>tag.get(k)\<close> and \<open>tag.get(k, '')\<close>.\<close>

definition get_attr :: "node \<Rightarrow> string \<Rightarrow> attrval option" where
  "get_attr n k = map_of (attrs n) k"

definition get_attr_or_empty :: "node \<Rightarrow> string \<Rightarrow> attrval" where
  "get_attr_or_empty n k = (case get_attr n k of None \<Rightarrow> AStr [] | Some v \<Rightarrow> v)"

fun attr_pyval :: "attrval \<Rightarrow> pyval" where
  "attr_pyval (AStr s) = VStr s"
| "attr_pyval (AList l) = VList (map VStr l)"

fun attr_truthy :: "attrval option \<Rightarrow> bool" where
  "attr_truthy None = False"
| "attr_truthy (Some (AStr s)) = (s \<noteq> [])"
| "attr_truthy (Some (AList l)) = (l \<noteq> [])"

text \<open>\<open>re.search(r, v)\<close> and \<open>int(v)\<close> on an attribute value: a list is not a
  string, and \<open>int\<close> takes, between optional blanks, an optional sign and digits
  that single underscores may separate (\<open>int_digits\<close>), as in \<open>int('1_000')\<close>.
  The limit that recent interpreters put on the number of digits is left out.\<close>

fun re_search_attr :: "re \<Rightarrow> attrval \<Rightarrow> exn + rmatch option" where
  "re_search_attr r (AStr s) = Inr (re_search r s)"
| "re_search_attr r (AList l) = Inl TypeError"

fun int_digits :: "string \<Rightarrow> bool" where
  "int_digits [] = False"
| "int_digits [c] = is_digit c"
| "int_digits (c # d # cs) =
     (is_digit c \<and> (if d = CHR ''_'' then int_digits cs else int_digits (d # cs)))"

definition py_int_str :: "string \<Rightarrow> exn + int" where
  "py_int_str s =
     (let t = py_strip s;
          neg = (t \<noteq> [] \<and> hd t = CHR ''-'');
          u = (if t \<noteq> [] \<and> (hd t = CHR ''-'' \<or> hd t = CHR ''+'') then tl t else t);
          ds = filter (\<lambda>c. c \<noteq> CHR ''_'') u
      in if int_digits u
         then Inr (if neg then - int (nat_of_digits ds) else int (nat_of_digits ds))
         else Inl ValueError)"

fun py_int_attr :: "attrval \<Rightarrow> exn + int" where
  "py_int_attr (AStr s) = py_int_str s"
| "py_int_attr (AList l) = Inl TypeError"

definition py_lower_char :: "char \<Rightarrow> char" where
  "py_lower_char c =
     (let n = (of_char c :: nat)
      in if (65 \<le> n \<and> n \<le> 90) \<or> (192 \<le> n \<and> n \<le> 222 \<and> n \<noteq> 215) then char_of (n + 32)
         else c)"

definition py_lower :: "string \<Rightarrow> string" where
  "py_lower s = map py_lower_char s"

text \<open>\<open>a in b\<close> for two strings.\<close>

fun is_substring :: "string \<Rightarrow> string \<Rightarrow> bool" where
  "is_substring a [] = (a = [])"
| "is_substring a (x # xs) = (take (length a) (x # xs) = a \<or> is_substring a xs)"

section \<open>Statements that mutate a dictionary inside \<open>try\<close>\<close>

text \<open>
  An extractor fills a dictionary inside \<open>try: ... except Exception\<close> and returns the
  dictionary after the handler. A block is a piece of such a body: from the dictionary
  before it to the dictionary after it, and the exception it raised, if any. What was
  stored before the exception stays stored.
\<close>

type_synonym block = "pydict \<Rightarrow> pydict \<times> exn option"

definition pass :: block where
  "pass d = (d, None)"

definition store :: "string \<Rightarrow> pyval \<Rightarrow> block" where
  "store k v d = (dict_set k v d, None)"

definition on_res :: "exn + 'a \<Rightarrow> ('a \<Rightarrow> block) \<Rightarrow> block" where
  "on_res q k d = (case q of Inl e \<Rightarrow> (d, Some e) | Inr x \<Rightarrow> k x d)"

fun seq :: "block list \<Rightarrow> block" where
  "seq [] d = (d, None)"
| "seq (b # bs) d = (case b d of (d', Some e) \<Rightarrow> (d', Some e) | (d', None) \<Rightarrow> seq bs d')"

definition try_except :: "block \<Rightarrow> pydict" where
  "try_except b = fst (b [])"

definition bind_res :: "exn + 'a \<Rightarrow> ('a \<Rightarrow> exn + 'b) \<Rightarrow> exn + 'b" where
  "bind_res q k = (case q of Inl e \<Rightarrow> Inl e | Inr x \<Rightarrow> k x)"

text \<open>
  The selector cascade \<open>for selector in selectors: elem = soup.select_one(selector);
  if elem and ...: ...; break\<close>. \<open>accept\<close> is the body under the \<open>if\<close>: it gives
  the value to keep when the loop breaks there, and \<open>None\<close> when the loop goes on to
  the next selector.
\<close>

fun cascade :: "node \<Rightarrow> string list \<Rightarrow> (node \<Rightarrow> exn + 'a option) \<Rightarrow> exn + 'a option" where
  "cascade soup [] accept = Inr None"
| "cascade soup (s # ss) accept =
     (case select_one soup s of
        Inl e \<Rightarrow> Inl e
      | Inr None \<Rightarrow> cascade soup ss accept
      | Inr (Some elem) \<Rightarrow>
          (case accept elem of
             Inl e \<Rightarrow> Inl e
           | Inr None \<Rightarrow> cascade soup ss accept
           | Inr (Some v) \<Rightarrow> Inr (Some v)))"

definition store_if :: "string \<Rightarrow> pyval option \<Rightarrow> block" where
  "store_if k r = (case r of None \<Rightarrow> pass | Some v \<Rightarrow> store k v)"


text \<open>\<open>for x in xs: ...\<close> inside a \<open>try\<close>: the iterations run in order and the
  first exception ends the loop.\<close>

definition for_each :: "'a list \<Rightarrow> ('a \<Rightarrow> block) \<Rightarrow> block" where
  "for_each xs f = seq (map f xs)"

text \<open>\<open>elem = soup.select_one(sel); if elem: d[k] = elem.get_text(strip=True)\<close>.
  A tag is always true.\<close>

definition store_text :: "node \<Rightarrow> string \<Rightarrow> string \<Rightarrow> block" where
  "store_text soup sel k =
     on_res (select_one soup sel)
       (\<lambda>r. case r of None \<Rightarrow> pass | Some elem \<Rightarrow> store k (VStr (get_text_strip elem)))"

text \<open>\<open>a or b\<close> on two attribute lookups.\<close>

definition attr_or :: "attrval option \<Rightarrow> attrval option \<Rightarrow> attrval option" where
  "attr_or a b = (if attr_truthy a then a else b)"

section \<open>The patterns of the scrapers\<close>

fun cats :: "re list \<Rightarrow> re" where
  "cats [] = Lit []"
| "cats [r] = r"
| "cats (r # rs) = Cat r (cats rs)"

definition re_any :: re where
  "re_any = Cls (\<lambda>c. True)"

definition re_dot :: re where
  "re_dot = Cls (\<lambda>c. c \<noteq> CHR 0x0A)"

definition re_quote :: re where
  "re_quote = Cls (\<lambda>c. c = CHR 0x22 \<or> c = CHR 0x27)"

definition re_upper :: re where
  "re_upper = Cls (\<lambda>c. 65 \<le> (of_char c :: nat) \<and> (of_char c :: nat) \<le> 90)"

definition is_ascii_alpha :: "char \<Rightarrow> bool" where
  "is_ascii_alpha c =
     ((65 \<le> (of_char c :: nat) \<and> (of_char c :: nat) \<le> 90)
      \<or> (97 \<le> (of_char c :: nat) \<and> (of_char c :: nat) \<le> 122))"

text \<open>\<^verbatim>\<open>/item/(\d+)\.html\<close>\<close>

definition re_item_id :: re where
  "re_item_id = cats [Lit ''/item/'', Grp 1 (Plus re_digit), Lit ''.html'']"

text \<open>\<^verbatim>\<open>productId["\']?\s*:\s*["\']?(\d+)\<close>\<close>

definition re_product_id :: re where
  "re_product_id =
     cats [Lit ''productId'', Opt re_quote, Star re_space, Lit '':'', Star re_space,
           Opt re_quote, Grp 1 (Plus re_digit)]"

text \<open>\<^verbatim>\<open>^([A-Z]{3}|[...])\<close> with the currency signs; of these the dollar, the
  pound (163) and the yen (165) are characters below 256.\<close>

definition re_currency :: re where
  "re_currency =
     cats [Bol, Grp 1 (Alt (cats [re_upper, re_upper, re_upper])
                          (Cls (\<lambda>c. c = CHR ''$'' \<or> (of_char c :: nat) = 163
                                     \<or> (of_char c :: nat) = 165)))]"

text \<open>\<^verbatim>\<open>(\d+\.\d+)\<close>, \<^verbatim>\<open>\d+\<close>, \<^verbatim>\<open>(\d+)\<close> and \<^verbatim>\<open>(\d+(?:\.\d+)?)\<close>\<close>

definition re_rating :: re where
  "re_rating = Grp 1 (cats [Plus re_digit, Lit ''.'', Plus re_digit])"

definition re_digits :: re where
  "re_digits = Plus re_digit"

definition re_number :: re where
  "re_number = Grp 1 (Plus re_digit)"

definition re_decimal :: re where
  "re_decimal = Grp 1 (Cat (Plus re_digit) (Opt (Cat (Lit ''.'') (Plus re_digit))))"

text \<open>\<^verbatim>\<open>"imagePathList":\s*(\[.*?\])\<close>, \<^verbatim>\<open>"summImagePathList":\s*(\[.*?\])\<close> and
  \<^verbatim>\<open>"images?":\s*(\[.*?\])\<close>\<close>

definition re_bracketed :: re where
  "re_bracketed = Grp 1 (cats [Lit ''['', Lazy re_dot, Lit '']''])"

definition re_image_path_list :: re where
  \<open>re_image_path_list = cats [Lit ''"imagePathList":'', Star re_space, re_bracketed]\<close>

definition re_summ_image_path_list :: re where
  \<open>re_summ_image_path_list = cats [Lit ''"summImagePathList":'', Star re_space, re_bracketed]\<close>

definition re_images :: re where
  \<open>re_images = cats [Lit ''"image'', Opt (Lit ''s''), Lit ''":'', Star re_space, re_bracketed]\<close>

text \<open>\<^verbatim>\<open>([A-Za-z\s]+):\s*([^\n\r]+)\<close> and \<^verbatim>\<open>([A-Za-z\s]+)\s*-\s*([^\n\r]+)\<close>\<close>

definition re_alpha_space :: re where
  "re_alpha_space = Cls (\<lambda>c. is_ascii_alpha c \<or> py_isspace c)"

definition re_not_newline :: re where
  "re_not_newline = Cls (\<lambda>c. c \<noteq> CHR 0x0A \<and> c \<noteq> CHR 0x0D)"

definition re_spec_colon :: re where
  "re_spec_colon =
     cats [Grp 1 (Plus re_alpha_space), Lit '':'', Star re_space, Grp 2 (Plus re_not_newline)]"

definition re_spec_dash :: re where
  "re_spec_dash =
     cats [Grp 1 (Plus re_alpha_space), Star re_space, Lit ''-'', Star re_space,
           Grp 2 (Plus re_not_newline)]"

text \<open>\<^verbatim>\<open>window\.NAME\s*=\s*({.*?});\<close> under \<open>re.DOTALL\<close>, for the four names
  \<open>runParams\<close>, \<open>_d_c_.DCData\<close>, \<open>productData\<close> and \<open>pageData\<close>.\<close>

definition re_js_assign :: "string \<Rightarrow> re" where
  "re_js_assign name =
     cats [Lit (''window.'' @ name), Star re_space, Lit ''='', Star re_space,
           Grp 1 (cats [Lit ''{'', Lazy re_any, Lit ''}'']), Lit '';'']"

definition js_patterns :: "(string \<times> re) list" where
  "js_patterns =
     [(''runParams'', re_js_assign ''runParams''),
      (''DCData'', re_js_assign ''_d_c_.DCData''),
      (''productData'', re_js_assign ''productData''),
      (''pageData'', re_js_assign ''pageData'')]"

text \<open>The letter classes of the language heuristic. Of the Polish letters only the
  o with acute accent (243) is below 256; the French class is all below 256; of the
  German one the sharp s is 223.\<close>

definition re_polish :: re where
  "re_polish = Cls (\<lambda>c. (of_char c :: nat) = 243)"

definition re_french :: re where
  "re_french =
     Cls (\<lambda>c. (of_char c :: nat) \<in> {224, 225, 226, 227, 228, 229, 230, 231, 232, 233, 234,
               235, 236, 237, 238, 239, 241, 242, 243, 244, 245, 246, 248, 249, 250, 251,
               252, 253})"

definition re_german :: re where
  "re_german = Cls (\<lambda>c. (of_char c :: nat) \<in> {228, 246, 252, 223})"

section \<open>live\_aliexpress\_scraper.py: identity and pricing\<close>

text \<open>
  \<open>self.driver\<close> is \<open>None\<close>, or a browser whose \<open>current_url\<close> is a string or
  raises.
\<close>

type_synonym driver = "(exn + string) option"

text \<open>\<open>_extract_product_id\<close>: the body of its \<open>try\<close>, then the function, which
  returns \<open>None\<close> when the body raised.\<close>

fun first_script_id :: "node list \<Rightarrow> string option" where
  "first_script_id [] = None"
| "first_script_id (script # scripts) =
     (case re_search re_product_id (get_text script) of
        Some m \<Rightarrow> Some (group m 1)
      | None \<Rightarrow> first_script_id scripts)"

definition product_id_from_scripts :: "node \<Rightarrow> exn + string option" where
  "product_id_from_scripts soup =
     bind_res (find_all soup ''script'' [] None) (\<lambda>scripts. Inr (first_script_id scripts))"

definition product_id_from_driver :: "driver \<Rightarrow> node \<Rightarrow> exn + string option" where
  "product_id_from_driver drv soup =
     (case drv of
        None \<Rightarrow> product_id_from_scripts soup
      | Some cur \<Rightarrow>
          bind_res cur (\<lambda>current_url.
            case re_search re_item_id current_url of
              Some m \<Rightarrow> Inr (Some (group m 1))
            | None \<Rightarrow> product_id_from_scripts soup))"

definition product_id_body :: "driver \<Rightarrow> node \<Rightarrow> exn + string option" where
  \<open>product_id_body drv soup =
     bind_res (select_one soup ''meta[property="og:url"]'') (\<lambda>og_url.
       case og_url of
         None \<Rightarrow> product_id_from_driver drv soup
       | Some tag \<Rightarrow>
           bind_res (re_search_attr re_item_id (get_attr_or_empty tag ''content'')) (\<lambda>r.
             case r of
               Some m \<Rightarrow> Inr (Some (group m 1))
             | None \<Rightarrow> product_id_from_driver drv soup))\<close>

definition extract_product_id :: "driver \<Rightarrow> node \<Rightarrow> string option" where
  "extract_product_id drv soup =
     (case product_id_body drv soup of Inl e \<Rightarrow> None | Inr r \<Rightarrow> r)"

text \<open>\<open>_extract_category\<close>. The loop over the reversed breadcrumbs returns the first
  text that is not a home label.\<close>

fun last_meaningful :: "node list \<Rightarrow> string option" where
  "last_meaningful [] = None"
| "last_meaningful (crumb # crumbs) =
     (let text = get_text_strip crumb
      in if py_lower text \<notin> set [''home'', ''accueil'', ''startseite''] then Some text
         else last_meaningful crumbs)"

definition category_from_meta :: "node \<Rightarrow> exn + pyval" where
  \<open>category_from_meta soup =
     bind_res (select_one soup ''meta[name="category"]'') (\<lambda>meta_category.
       case meta_category of
         Some tag \<Rightarrow> Inr (attr_pyval (get_attr_or_empty tag ''content''))
       | None \<Rightarrow> Inr (VStr ''Unknown''))\<close>

definition category_body :: "node \<Rightarrow> exn + pyval" where
  "category_body soup =
     bind_res (select soup ''.breadcrumb a, .nav-breadcrumb a'') (\<lambda>breadcrumbs.
       if breadcrumbs \<noteq> [] \<and> 1 < length breadcrumbs
       then (case last_meaningful (rev breadcrumbs) of
               Some text \<Rightarrow> Inr (VStr text)
             | None \<Rightarrow> category_from_meta soup)
       else category_from_meta soup)"

definition extract_category :: "node \<Rightarrow> pyval" where
  "extract_category soup =
     (case category_body soup of Inl e \<Rightarrow> VStr ''Unknown'' | Inr v \<Rightarrow> v)"

text \<open>\<open>_extract_brand\<close>.\<close>

definition brand_selectors :: "string list" where
  "brand_selectors = [''.product-brand'', ''.brand-name'', ''[data-brand]'', ''.manufacturer'']"

definition brand_of :: "node \<Rightarrow> exn + pyval option" where
  "brand_of elem =
     (let text = get_text_strip elem;
          brand = (if text \<noteq> [] then VStr text
                   else attr_pyval (get_attr_or_empty elem ''data-brand''))
      in Inr (if truthy brand then Some brand else None))"

definition extract_brand :: "node \<Rightarrow> pyval option" where
  "extract_brand soup =
     (case cascade soup brand_selectors brand_of of Inl e \<Rightarrow> None | Inr r \<Rightarrow> r)"

text \<open>\<open>_extract_basic_info\<close>.\<close>

definition title_selectors :: "string list" where
  \<open>title_selectors =
     [''h1[data-pl="product-title"]'', ''.title--wrap--UUHae_g h1'', ''.product-title'', ''h1'']\<close>

definition basic_info_body :: "driver \<Rightarrow> node \<Rightarrow> block" where
  "basic_info_body drv soup =
     seq [on_res (cascade soup title_selectors (\<lambda>elem. Inr (Some (VStr (get_text_strip elem)))))
            (store_if ''title''),
          (case extract_product_id drv soup of
             Some product_id \<Rightarrow>
               if product_id \<noteq> [] then store ''product_id'' (VStr product_id) else pass
           | None \<Rightarrow> pass),
          store ''category'' (extract_category soup),
          store_if ''brand'' (extract_brand soup)]"

definition extract_basic_info :: "driver \<Rightarrow> node \<Rightarrow> pydict" where
  "extract_basic_info drv soup = try_except (basic_info_body drv soup)"

text \<open>\<open>_extract_pricing\<close>.\<close>

definition price_selectors :: "string list" where
  \<open>price_selectors =
     [''span.product-price-value'', ''.price--currentPriceText--V8_y_b5'',
      ''.pdp-comp-price-current'',
      ''[data-pl="product-price"] .price--current--I3Zeidd span'']\<close>

definition original_price_selectors :: "string list" where
  "original_price_selectors =
     [''.price--originalPrice'', ''.product-price-original'', ''.price--lineThrough'']"

definition text_of :: "node \<Rightarrow> exn + pyval option" where
  "text_of elem = Inr (Some (VStr (get_text_strip elem)))"

definition bulk_price_block :: "node \<Rightarrow> block" where
  "bulk_price_block soup =
     on_res (find_string soup ''za szt|per piece|pieces?'' False)
       (\<lambda>r. case r of
               None \<Rightarrow> pass
             | Some (text, parent) \<Rightarrow>
                 if text \<noteq> [] then
                   (case parent of
                      None \<Rightarrow> pass
                    | Some p \<Rightarrow> store ''bulk_price'' (VStr (get_text_strip p)))
                 else pass)"

definition currency_block :: block where
  "currency_block d =
     (case dict_get d ''current_price'' of
        Some (VStr price) \<Rightarrow>
          if price \<noteq> [] then
            (case re_search re_currency price of
               Some m \<Rightarrow> store ''currency'' (VStr (group m 1)) d
             | None \<Rightarrow> pass d)
          else pass d
      | _ \<Rightarrow> pass d)"

definition tax_block :: "node \<Rightarrow> block" where
  "tax_block soup =
     on_res (find_string soup ''bez podatku|tax|VAT'' True)
       (\<lambda>r. case r of
               None \<Rightarrow> pass
             | Some (text, parent) \<Rightarrow>
                 if text \<noteq> [] then store ''tax_info'' (VStr (py_strip text)) else pass)"

definition pricing_body :: "node \<Rightarrow> block" where
  "pricing_body soup =
     seq [on_res (cascade soup price_selectors text_of) (store_if ''current_price''),
          on_res (cascade soup original_price_selectors text_of) (store_if ''original_price''),
          bulk_price_block soup,
          store_text soup ''.discount-percent, .sale-percent'' ''discount'',
          currency_block,
          tax_block soup]"

definition extract_pricing :: "node \<Rightarrow> pydict" where
  "extract_pricing soup = try_except (pricing_body soup)"


section \<open>live\_aliexpress\_scraper.py: reviews and variations\<close>

text \<open>\<open>reviews['rating'] = float(match.group(1))\<close> and its like: the number a
  pattern found in a text, as a float or as an int.\<close>

definition float_found :: "re \<Rightarrow> string \<Rightarrow> exn + pyval option" where
  "float_found r text =
     (case re_search r text of
        None \<Rightarrow> Inr None
      | Some m \<Rightarrow> bind_res (py_float (group m 1)) (\<lambda>x. Inr (Some (VFloat x))))"

definition int_found :: "re \<Rightarrow> string \<Rightarrow> exn + pyval option" where
  "int_found r text =
     (case re_search r text of
        None \<Rightarrow> Inr None
      | Some m \<Rightarrow> bind_res (py_int_str (group m 1)) (\<lambda>n. Inr (Some (VInt n))))"

text \<open>\<open>_parse_individual_review\<close>.\<close>

definition first_class :: "node \<Rightarrow> string" where
  "first_class elem =
     (case get_attr elem ''class'' of
        Some (AList (c # cs)) \<Rightarrow> c
      | Some (AStr (c # cs)) \<Rightarrow> [c]
      | _ \<Rightarrow> [])"

definition image_urls_of :: "node list \<Rightarrow> attrval list" where
  "image_urls_of imgs =
     concat (map (\<lambda>img. case attr_or (get_attr img ''src'') (get_attr img ''data-src'') of
                          None \<Rightarrow> []
                        | Some src \<Rightarrow> if attr_truthy (Some src) then [src] else []) imgs)"

definition review_body :: "node \<Rightarrow> block" where
  "review_body review_elem =
     seq [store_text review_elem ''.reviewer-info, .review-author'' ''reviewer_info'',
          store_text review_elem ''.review-text, .review-content, .list--itemReview--d9Z9Z5Z''
            ''review_text'',
          on_res (select_one review_elem ''.rating, .stars'')
            (\<lambda>r. case r of
                    None \<Rightarrow> pass
                  | Some rating_elem \<Rightarrow>
                      on_res (float_found re_decimal (first_class rating_elem))
                        (store_if ''rating'')),
          store_text review_elem ''.sku-info, .variant-info, .list--itemSku--idEQSGC'' ''sku'',
          on_res (select review_elem ''.review-image img'')
            (\<lambda>review_images.
               if review_images \<noteq> [] \<and> image_urls_of review_images \<noteq> []
               then store ''images'' (VList (map attr_pyval (image_urls_of review_images)))
               else pass)]"

definition parse_individual_review :: "node \<Rightarrow> pydict" where
  "parse_individual_review review_elem = try_except (review_body review_elem)"

text \<open>\<open>_extract_reviews_and_ratings\<close>.\<close>

definition review_selectors :: "string list" where
  \<open>review_selectors = [''a[href*="review"]'', ''.reviewer--reviews--cx7Zs_V'', ''.review-count'']\<close>

definition sold_selectors :: "string list" where
  \<open>sold_selectors = [''.reviewer--sold--ytPeoEy'', ''.product-sold-count'', ''[class*="sold"]'']\<close>

definition review_count_of :: "node \<Rightarrow> exn + pyval option" where
  "review_count_of elem =
     (if re_search re_digits (get_text elem) \<noteq> None
      then int_found re_number (get_text elem) else Inr None)"

definition sold_count_of :: "node \<Rightarrow> exn + pyval option" where
  "sold_count_of elem =
     (if is_substring ''sold'' (py_lower (get_text elem))
      then int_found re_number (get_text elem) else Inr None)"

definition individual_reviews_of :: "node list \<Rightarrow> pydict list" where
  "individual_reviews_of review_items =
     filter (\<lambda>review_data. review_data \<noteq> [])
            (map parse_individual_review (take 10 review_items))"

text \<open>The text of the pattern \<^verbatim>\<open>\d+\.\d+\<close>; \<open>bsl\<close> is the backslash.\<close>

definition bsl :: string where
  "bsl = [CHR 0x5C]"

definition pat_rating_text :: string where
  "pat_rating_text = bsl @ ''d+'' @ bsl @ ''.'' @ bsl @ ''d+''"

definition rating_block :: "node \<Rightarrow> block" where
  "rating_block soup =
     on_res (find_tag soup ''strong'' [] (Some pat_rating_text))
       (\<lambda>r. case r of
               None \<Rightarrow> pass
             | Some rating_elem \<Rightarrow>
                 on_res (float_found re_rating (get_text_strip rating_elem))
                   (store_if ''rating''))"

definition review_count_block :: "node \<Rightarrow> block" where
  "review_count_block soup =
     on_res (cascade soup review_selectors review_count_of) (store_if ''review_count'')"

definition sold_count_block :: "node \<Rightarrow> block" where
  "sold_count_block soup =
     on_res (cascade soup sold_selectors sold_count_of) (store_if ''sold_count'')"

definition review_items_selector :: string where
  "review_items_selector = ''.list--itemDesc--JcxNPy5, .review-item, .feedback-item''"

definition individual_reviews_block :: "node \<Rightarrow> block" where
  "individual_reviews_block soup =
     on_res (select soup review_items_selector)
       (\<lambda>review_items.
          if individual_reviews_of review_items \<noteq> []
          then store ''individual_reviews''
                 (VList (map VDict (individual_reviews_of review_items)))
          else pass)"

definition reviews_body :: "node \<Rightarrow> block" where
  "reviews_body soup =
     seq [rating_block soup, review_count_block soup, sold_count_block soup,
          individual_reviews_block soup]"

definition extract_reviews_and_ratings :: "node \<Rightarrow> pydict" where
  "extract_reviews_and_ratings soup = try_except (reviews_body soup)"

text \<open>\<open>_parse_variation_item\<close>. \<open>classes_of\<close> is what the loops over
  \<open>option.get('class', [])\<close> iterate on.\<close>

definition classes_of :: "node \<Rightarrow> string list" where
  "classes_of option =
     (case get_attr option ''class'' of
        None \<Rightarrow> []
      | Some (AList l) \<Rightarrow> l
      | Some (AStr s) \<Rightarrow> map (\<lambda>c. [c]) s)"

definition option_body :: "node \<Rightarrow> block" where
  "option_body option =
     seq [on_res (select_one option ''img'')
            (\<lambda>r. case r of
                    None \<Rightarrow> pass
                  | Some img \<Rightarrow>
                      seq [store ''image'' (attr_pyval (get_attr_or_empty img ''src'')),
                           store ''alt_text'' (attr_pyval (get_attr_or_empty img ''alt''))]),
          (if get_text_strip option \<noteq> [] then store ''text'' (VStr (get_text_strip option))
           else pass),
          (if list_ex (\<lambda>cls. is_substring ''selected'' cls) (classes_of option)
           then store ''selected'' (VBool True) else pass),
          (if list_ex (\<lambda>cls. is_substring ''soldOut'' cls \<or> is_substring ''sold-out'' cls)
                      (classes_of option)
           then store ''sold_out'' (VBool True) else pass)]"

text \<open>The loop over the option elements: an exception in one of them leaves the
  function before anything is stored.\<close>

fun options_of :: "node list \<Rightarrow> exn + pydict list" where
  "options_of [] = Inr []"
| "options_of (option # more) =
     (case option_body option [] of
        (option_data, Some e) \<Rightarrow> Inl e
      | (option_data, None) \<Rightarrow>
          bind_res (options_of more) (\<lambda>options.
            Inr (if option_data \<noteq> [] then option_data # options else options)))"

definition py_remove_colons :: "string \<Rightarrow> string" where
  "py_remove_colons s = filter (\<lambda>c. c \<noteq> CHR '':'') s"

definition variation_body :: "node \<Rightarrow> block" where
  "variation_body sku_item =
     on_res (select_one sku_item ''.sku-item--title--Z0HLO87, .variation-title'')
       (\<lambda>r. case r of
               None \<Rightarrow> pass
             | Some title_elem \<Rightarrow>
                 on_res (bind_res (select sku_item ''[data-sku-col], .variation-option'') options_of)
                   (\<lambda>options.
                      if options \<noteq> []
                      then store (py_strip (py_remove_colons (get_text_strip title_elem)))
                             (VList (map VDict options))
                      else pass))"

definition parse_variation_item :: "node \<Rightarrow> pydict" where
  "parse_variation_item sku_item = try_except (variation_body sku_item)"

text \<open>\<open>_extract_product_variations\<close>.\<close>

definition max_quantity_block :: "node \<Rightarrow> block" where
  \<open>max_quantity_block soup =
     on_res (select_one soup ''.quantity-selector, input[name*="quantity"]'')
       (\<lambda>r. case r of
               None \<Rightarrow> pass
             | Some quantity_elem \<Rightarrow>
                 if tag_name quantity_elem = ''input'' then
                   (case get_attr quantity_elem ''max'' of
                      None \<Rightarrow> pass
                    | Some max_qty \<Rightarrow>
                        if attr_truthy (Some max_qty)
                        then on_res (py_int_attr max_qty) (\<lambda>n. store ''max_quantity'' (VInt n))
                        else pass)
                 else pass)\<close>

definition sku_axes_block :: "node \<Rightarrow> block" where
  "sku_axes_block soup =
     on_res (select_one soup ''.sku--wrap--xgoW06M, .product-sku, .sku-wrap'')
       (\<lambda>r. case r of
               None \<Rightarrow> pass
             | Some sku_wrapper \<Rightarrow>
                 on_res (select sku_wrapper ''.sku-item--wrap--t9Qszzx, .sku-item'')
                   (\<lambda>sku_items.
                      for_each sku_items
                        (\<lambda>sku_item d. (dict_update d (parse_variation_item sku_item), None))))"

definition variations_body :: "node \<Rightarrow> block" where
  "variations_body soup =
     seq [sku_axes_block soup,
          store_text soup ''.sku--menuTitle--UIEMJcG, .current-sku'' ''current_selection'',
          max_quantity_block soup]"

definition extract_product_variations :: "node \<Rightarrow> pydict" where
  "extract_product_variations soup = try_except (variations_body soup)"


section \<open>live\_aliexpress\_scraper.py: media, shipping, specifications, seller\<close>

text \<open>
  \<open>json.loads\<close> is a parameter \<open>jl\<close> of the extractors that call it: from the text
  to the value, or to the exception it raises.
\<close>

type_synonym json_loads = "string \<Rightarrow> exn + pyval"

text \<open>\<open>_extract_images\<close>. Inside the inner \<open>try\<close> the first pattern stores the
  gallery, the second the thumbnails, and the third parses and stores nothing; a failed
  parse goes on to the next pattern.\<close>

definition main_img_selectors :: "string list" where
  "main_img_selectors =
     [''.magnifier--image--EYYoSlr'', ''.product-main-image img'', ''.main-image img'']"

definition main_image_of :: "node \<Rightarrow> exn + pyval option" where
  "main_image_of img =
     Inr (case get_attr img ''src'' of
            None \<Rightarrow> None
          | Some src \<Rightarrow> if attr_truthy (Some src) then Some (attr_pyval src) else None)"

definition store_parsed :: "json_loads \<Rightarrow> re \<Rightarrow> string option \<Rightarrow> string \<Rightarrow> pydict \<Rightarrow> pydict" where
  "store_parsed jl pattern key content d =
     (case re_search pattern content of
        None \<Rightarrow> d
      | Some m \<Rightarrow>
          (case jl (group m 1) of
             Inl e \<Rightarrow> d
           | Inr image_list \<Rightarrow>
               (case key of None \<Rightarrow> d | Some k \<Rightarrow> dict_set k image_list d)))"

definition script_images :: "json_loads \<Rightarrow> node \<Rightarrow> block" where
  "script_images jl script d =
     (store_parsed jl re_images None (get_text script)
        (store_parsed jl re_summ_image_path_list (Some ''thumbnail_images'') (get_text script)
           (store_parsed jl re_image_path_list (Some ''gallery_images'') (get_text script) d)),
      None)"

fun gallery_from_tags :: "node list \<Rightarrow> attrval list \<Rightarrow> attrval list" where
  "gallery_from_tags [] gallery_imgs = gallery_imgs"
| "gallery_from_tags (img # imgs) gallery_imgs =
     (case attr_or (get_attr img ''src'') (get_attr img ''data-src'') of
        None \<Rightarrow> gallery_from_tags imgs gallery_imgs
      | Some src \<Rightarrow>
          if attr_truthy (Some src) \<and> src \<notin> set gallery_imgs
          then gallery_from_tags imgs (gallery_imgs @ [src])
          else gallery_from_tags imgs gallery_imgs)"

definition gallery_fallback :: "node \<Rightarrow> block" where
  "gallery_fallback soup d =
     (if (case dict_get d ''gallery_images'' of None \<Rightarrow> True | Some v \<Rightarrow> \<not> truthy v)
      then on_res (select soup ''.image-gallery img, .product-images img'')
             (\<lambda>img_tags.
                if gallery_from_tags img_tags [] \<noteq> []
                then store ''gallery_images''
                       (VList (map attr_pyval (gallery_from_tags img_tags [])))
                else pass) d
      else pass d)"

definition video_block :: "node \<Rightarrow> block" where
  "video_block soup =
     on_res (select_one soup ''video source, .product-video'')
       (\<lambda>r. case r of
               None \<Rightarrow> pass
             | Some video_elem \<Rightarrow>
                 (case attr_or (get_attr video_elem ''src'') (get_attr video_elem ''data-src'') of
                    None \<Rightarrow> pass
                  | Some video_src \<Rightarrow>
                      if attr_truthy (Some video_src)
                      then store ''product_video'' (attr_pyval video_src) else pass))"

definition images_body :: "json_loads \<Rightarrow> node \<Rightarrow> block" where
  "images_body jl soup =
     seq [on_res (cascade soup main_img_selectors main_image_of) (store_if ''main_image''),
          on_res (find_all soup ''script'' [] (Some ''imagePathList|gallery''))
            (\<lambda>scripts. for_each scripts (script_images jl)),
          gallery_fallback soup,
          video_block soup]"

definition extract_images :: "json_loads \<Rightarrow> node \<Rightarrow> pydict" where
  "extract_images jl soup = try_except (images_body jl soup)"

text \<open>\<open>_extract_shipping_info\<close>. The texts of the patterns given to
  \<open>soup.find(string=...)\<close>; the two CJK characters of the first are written as the
  escapes \<^verbatim>\<open>\u514d\u8d39\<close>.\<close>

definition pat_free_shipping :: string where
  "pat_free_shipping =
     ''Free shipping|Darmowa dostawa|'' @ bsl @ ''u514d'' @ bsl @ ''u8d39''"

text \<open>\<^verbatim>\<open>\b\w{3}\s+\d+\s*-\s*\w{3}\s+\d+\b\<close>, \<^verbatim>\<open>\d+\s*-\s*\d+\s*days?\<close> and
  \<^verbatim>\<open>\d+\s*dni\b\<close>\<close>

definition delivery_patterns :: "string list" where
  "delivery_patterns =
     [bsl @ ''b'' @ bsl @ ''w{3}'' @ bsl @ ''s+'' @ bsl @ ''d+'' @ bsl @ ''s*-'' @ bsl @ ''s*''
        @ bsl @ ''w{3}'' @ bsl @ ''s+'' @ bsl @ ''d+'' @ bsl @ ''b'',
      bsl @ ''d+'' @ bsl @ ''s*-'' @ bsl @ ''s*'' @ bsl @ ''d+'' @ bsl @ ''s*days?'',
      bsl @ ''d+'' @ bsl @ ''s*dni'' @ bsl @ ''b'']"

fun first_delivery :: "node \<Rightarrow> string list \<Rightarrow> exn + string option" where
  "first_delivery soup [] = Inr None"
| "first_delivery soup (pattern # patterns) =
     (case find_string soup pattern False of
        Inl e \<Rightarrow> Inl e
      | Inr None \<Rightarrow> first_delivery soup patterns
      | Inr (Some (text, parent)) \<Rightarrow>
          if text \<noteq> [] then Inr (Some (py_strip text)) else first_delivery soup patterns)"

definition shipping_body :: "node \<Rightarrow> block" where
  "shipping_body soup =
     seq [on_res (find_string soup pat_free_shipping True)
            (\<lambda>r. case r of
                    None \<Rightarrow> pass
                  | Some (text, parent) \<Rightarrow>
                      if text \<noteq> [] then
                        (case parent of
                           None \<Rightarrow> pass
                         | Some p \<Rightarrow> store ''free_shipping_info'' (VStr (get_text_strip p)))
                      else pass),
          on_res (first_delivery soup delivery_patterns)
            (\<lambda>r. case r of None \<Rightarrow> pass | Some t \<Rightarrow> store ''delivery_time'' (VStr t)),
          store_text soup ''.delivery-v2--to--Mtweg7y, .delivery-location'' ''delivery_to'',
          store_text soup ''.shipping-cost, .delivery-cost'' ''shipping_cost'',
          on_res (select soup ''.shipping-method, .delivery-option'')
            (\<lambda>shipping_methods.
               if shipping_methods \<noteq> []
               then store ''shipping_methods''
                      (VList (map VStr (filter (\<lambda>t. t \<noteq> [])
                                               (map get_text_strip shipping_methods))))
               else pass)]"

definition extract_shipping_info :: "node \<Rightarrow> pydict" where
  "extract_shipping_info soup = try_except (shipping_body soup)"

text \<open>\<open>_extract_specifications\<close>.\<close>

definition row_block :: "node \<Rightarrow> block" where
  "row_block row =
     on_res (select row ''td, th'')
       (\<lambda>cells. case cells of
                   c0 # c1 # more \<Rightarrow>
                     if get_text_strip c0 \<noteq> [] \<and> get_text_strip c1 \<noteq> []
                     then store (get_text_strip c0) (VStr (get_text_strip c1)) else pass
                 | _ \<Rightarrow> pass)"

definition table_block :: "node \<Rightarrow> block" where
  "table_block table = on_res (select table ''tr'') (\<lambda>rows. for_each rows row_block)"

definition spec_pair_block :: "string \<times> string \<Rightarrow> block" where
  "spec_pair_block kv =
     (if length (py_strip (fst kv)) < 50 \<and> length (py_strip (snd kv)) < 200
      then store (py_strip (fst kv)) (VStr (py_strip (snd kv))) else pass)"

definition description_block :: "node \<Rightarrow> block" where
  "description_block soup =
     on_res (select_one soup ''.product-description, .item-description'')
       (\<lambda>r. case r of
               None \<Rightarrow> pass
             | Some desc_section \<Rightarrow>
                 for_each [re_spec_colon, re_spec_dash]
                   (\<lambda>pattern. for_each (take 10 (re_findall pattern (get_text desc_section)))
                                 spec_pair_block))"

definition specifications_body :: "node \<Rightarrow> block" where
  "specifications_body soup =
     seq [on_res (select soup
                    ''.product-specs table, .specifications table, .product-props table'')
            (\<lambda>spec_tables. for_each spec_tables table_block),
          description_block soup]"

definition extract_specifications :: "node \<Rightarrow> pydict" where
  "extract_specifications soup = try_except (specifications_body soup)"

text \<open>\<open>_extract_seller_info\<close>.\<close>

definition store_link_block :: "node \<Rightarrow> block" where
  \<open>store_link_block soup =
     on_res (select_one soup ''a[href*="/store/"], .store-link, .seller-link'')
       (\<lambda>r. case r of
               None \<Rightarrow> pass
             | Some store_link \<Rightarrow>
                 seq [store ''store_url'' (attr_pyval (get_attr_or_empty store_link ''href'')),
                      on_res (select_one store_link ''.store-name, .seller-name'')
                        (\<lambda>n. case n of
                                Some store_name \<Rightarrow>
                                  store ''store_name'' (VStr (get_text_strip store_name))
                              | None \<Rightarrow>
                                  if get_text store_link \<noteq> []
                                  then store ''store_name'' (VStr (get_text_strip store_link))
                                  else pass)])\<close>

definition found_in :: "node \<Rightarrow> string \<Rightarrow> (string \<Rightarrow> exn + pyval option) \<Rightarrow> string \<Rightarrow> block" where
  "found_in soup sel conv k =
     on_res (select_one soup sel)
       (\<lambda>r. case r of
               None \<Rightarrow> pass
             | Some elem \<Rightarrow> on_res (conv (get_text elem)) (store_if k))"

definition seller_body :: "node \<Rightarrow> block" where
  "seller_body soup =
     seq [store_link_block soup,
          found_in soup ''.store-rating, .seller-rating'' (float_found re_decimal)
            ''store_rating'',
          found_in soup ''.store-followers, .follower-count'' (int_found re_number) ''followers'',
          found_in soup ''.store-years, .years-in-business'' (int_found re_number)
            ''years_in_business'']"

definition extract_seller_info :: "node \<Rightarrow> pydict" where
  "extract_seller_info soup = try_except (seller_body soup)"

section \<open>live\_aliexpress\_scraper.py: script data, meta tags, language, assembly\<close>

text \<open>\<open>_extract_javascript_data\<close>. For each script and each of the four patterns that
  matches its content, the key gets the parsed value, or the matched text when
  \<open>json.loads\<close> raises.\<close>

definition js_store :: "json_loads \<Rightarrow> string \<Rightarrow> string \<times> re \<Rightarrow> pydict \<Rightarrow> pydict" where
  "js_store jl content kp d =
     (case re_search (snd kp) content of
        None \<Rightarrow> d
      | Some m \<Rightarrow>
          (case jl (group m 1) of
             Inr v \<Rightarrow> dict_set (fst kp) v d
           | Inl e \<Rightarrow> dict_set (fst kp) (VStr (group m 1)) d))"

definition js_script :: "json_loads \<Rightarrow> node \<Rightarrow> pydict \<Rightarrow> pydict" where
  "js_script jl script d = foldl (\<lambda>acc kp. js_store jl (get_text script) kp acc) d js_patterns"

definition javascript_body :: "json_loads \<Rightarrow> node \<Rightarrow> block" where
  "javascript_body jl soup =
     on_res (find_all soup ''script'' [] None)
       (\<lambda>scripts d. (foldl (\<lambda>acc script. js_script jl script acc) d scripts, None))"

definition extract_javascript_data :: "json_loads \<Rightarrow> node \<Rightarrow> pydict" where
  "extract_javascript_data jl soup = try_except (javascript_body jl soup)"

text \<open>\<open>_extract_meta_tags\<close>. \<open>py_replace_og\<close> is \<open>s.replace('og:', '')\<close>; on a list
  it is an \<open>AttributeError\<close>, and a list is no dictionary key.\<close>

fun py_replace_og :: "string \<Rightarrow> string" where
  "py_replace_og [] = []"
| "py_replace_og (c # cs) =
     (if take 3 (c # cs) = ''og:'' then py_replace_og (drop 2 cs) else c # py_replace_og cs)"

definition og_tag_block :: "node \<Rightarrow> block" where
  "og_tag_block tag =
     (case get_attr_or_empty tag ''property'' of
        AList l \<Rightarrow> (\<lambda>d. (d, Some AttributeError))
      | AStr p \<Rightarrow>
          if py_replace_og p \<noteq> [] \<and> attr_truthy (Some (get_attr_or_empty tag ''content''))
          then store (''og_'' @ py_replace_og p) (attr_pyval (get_attr_or_empty tag ''content''))
          else pass)"

definition app_tag_block :: "node \<Rightarrow> block" where
  "app_tag_block tag =
     (if attr_truthy (Some (get_attr_or_empty tag ''property''))
         \<and> attr_truthy (Some (get_attr_or_empty tag ''content''))
      then (case get_attr_or_empty tag ''property'' of
              AList l \<Rightarrow> (\<lambda>d. (d, Some TypeError))
            | AStr p \<Rightarrow> store p (attr_pyval (get_attr_or_empty tag ''content'')))
      else pass)"

definition app_links_block :: "node \<Rightarrow> block" where
  \<open>app_links_block soup =
     on_res (select soup ''meta[property^="al:"]'')
       (\<lambda>app_tags d.
          case for_each app_tags app_tag_block [] of
            (app_links, Some e) \<Rightarrow> (d, Some e)
          | (app_links, None) \<Rightarrow>
              if app_links \<noteq> [] then store ''app_links'' (VDict app_links) d else pass d)\<close>

definition important_meta_block :: "node \<Rightarrow> string \<Rightarrow> block" where
  \<open>important_meta_block soup meta_name =
     on_res (select_one soup (''meta[name="'' @ meta_name @ ''"]''))
       (\<lambda>r. case r of
               None \<Rightarrow> pass
             | Some meta_tag \<Rightarrow>
                 store meta_name (attr_pyval (get_attr_or_empty meta_tag ''content'')))\<close>

definition meta_body :: "node \<Rightarrow> block" where
  \<open>meta_body soup =
     seq [on_res (select soup ''meta[property^="og:"]'')
            (\<lambda>og_tags. for_each og_tags og_tag_block),
          app_links_block soup,
          for_each [''description'', ''keywords'', ''author''] (important_meta_block soup)]\<close>

definition extract_meta_tags :: "node \<Rightarrow> pydict" where
  "extract_meta_tags soup = try_except (meta_body soup)"

text \<open>\<open>_detect_page_language\<close>.\<close>

definition language_from_text :: "node \<Rightarrow> pyval" where
  "language_from_text soup =
     (let text_sample = take 1000 (get_text soup)
      in if re_search re_polish text_sample \<noteq> None then VStr ''pl''
         else if re_search re_french text_sample \<noteq> None then VStr ''fr''
         else if re_search re_german text_sample \<noteq> None then VStr ''de''
         else VStr ''en'')"

definition language_from_meta :: "node \<Rightarrow> exn + pyval" where
  \<open>language_from_meta soup =
     bind_res (select_one soup ''meta[name="language"]'') (\<lambda>lang_meta.
       case lang_meta of
         Some tag \<Rightarrow> Inr (attr_pyval (get_attr_or_empty tag ''content''))
       | None \<Rightarrow> Inr (language_from_text soup))\<close>

definition language_body :: "node \<Rightarrow> exn + pyval" where
  "language_body soup =
     bind_res (find_tag soup ''html'' [] None) (\<lambda>html_tag.
       case html_tag of
         None \<Rightarrow> language_from_meta soup
       | Some tag \<Rightarrow>
           (case get_attr tag ''lang'' of
              None \<Rightarrow> language_from_meta soup
            | Some lang \<Rightarrow>
                if attr_truthy (Some lang) then Inr (attr_pyval lang)
                else language_from_meta soup))"

definition detect_page_language :: "node \<Rightarrow> pyval" where
  "detect_page_language soup =
     (case language_body soup of Inl e \<Rightarrow> VStr ''en'' | Inr v \<Rightarrow> v)"

text \<open>\<open>_extract_all_data\<close>. \<open>now\<close> is the text of
  \<open>datetime.now().isoformat()\<close>.\<close>

definition extract_all_data :: "json_loads \<Rightarrow> driver \<Rightarrow> string \<Rightarrow> node \<Rightarrow> string \<Rightarrow> pydict" where
  "extract_all_data jl drv now soup url =
     [(''url'', VStr url),
      (''basic_info'', VDict (extract_basic_info drv soup)),
      (''pricing'', VDict (extract_pricing soup)),
      (''reviews_and_ratings'', VDict (extract_reviews_and_ratings soup)),
      (''product_variations'', VDict (extract_product_variations soup)),
      (''images'', VDict (extract_images jl soup)),
      (''shipping_info'', VDict (extract_shipping_info soup)),
      (''specifications'', VDict (extract_specifications soup)),
      (''seller_info'', VDict (extract_seller_info soup)),
      (''javascript_data'', VDict (extract_javascript_data jl soup)),
      (''meta_tags'', VDict (extract_meta_tags soup)),
      (''scraping_timestamp'', VStr now),
      (''page_language'', detect_page_language soup)]"


section \<open>comprehensive\_scraper.py\<close>

text \<open>
  \<open>self.soup\<close> is \<open>None\<close> until \<open>load_html\<close> has parsed the file; a search on
  \<open>None\<close> is an \<open>AttributeError\<close>.
\<close>

definition soup_find :: "node option \<Rightarrow> string \<Rightarrow> (string \<times> attr_filter) list \<Rightarrow> string option
    \<Rightarrow> exn + node option" where
  "soup_find soup name flt pat =
     (case soup of None \<Rightarrow> Inl AttributeError | Some n \<Rightarrow> find_tag n name flt pat)"

definition soup_find_all :: "node option \<Rightarrow> string \<Rightarrow> (string \<times> attr_filter) list
    \<Rightarrow> string option \<Rightarrow> exn + node list" where
  "soup_find_all soup name flt pat =
     (case soup of None \<Rightarrow> Inl AttributeError | Some n \<Rightarrow> find_all n name flt pat)"

text \<open>\<open>elem = self.soup.find(name, class_=c); if elem: d[k] = elem.get_text(strip=True)\<close>\<close>

definition store_found :: "node option \<Rightarrow> string \<Rightarrow> (string \<times> attr_filter) list
    \<Rightarrow> string option \<Rightarrow> string \<Rightarrow> block" where
  "store_found soup name flt pat k =
     on_res (soup_find soup name flt pat)
       (\<lambda>r. case r of None \<Rightarrow> pass | Some elem \<Rightarrow> store k (VStr (get_text_strip elem)))"

definition store_found_in :: "node \<Rightarrow> string \<Rightarrow> (string \<times> attr_filter) list
    \<Rightarrow> string option \<Rightarrow> string \<Rightarrow> block" where
  "store_found_in elem name flt pat k = store_found (Some elem) name flt pat k"

text \<open>\<open>extract_category\<close> and \<open>extract_store_info\<close>.\<close>

definition c_extract_category :: "node option \<Rightarrow> pyval" where
  "c_extract_category soup = VStr ''Electronics''"

definition c_store_info_body :: "node option \<Rightarrow> block" where
  "c_store_info_body soup =
     on_res (soup_find soup ''a'' [(''class'', AttrIs ''store-detail--wrap--IhR4e1j'')] None)
       (\<lambda>r. case r of
               None \<Rightarrow> pass
             | Some store_link \<Rightarrow>
                 seq [store ''store_url'' (attr_pyval (get_attr_or_empty store_link ''href'')),
                      store_found_in store_link ''span''
                        [(''class'', AttrIs ''store-detail--storeName--hpOD8R8'')] None
                        ''store_name''])"

definition c_extract_store_info :: "node option \<Rightarrow> pydict" where
  "c_extract_store_info soup = try_except (c_store_info_body soup)"

text \<open>\<open>extract_basic_info\<close>.\<close>

definition c_product_id_block :: "node option \<Rightarrow> block" where
  "c_product_id_block soup =
     on_res (soup_find soup ''meta'' [(''property'', AttrIs ''og:url'')] None)
       (\<lambda>r. case r of
               None \<Rightarrow> pass
             | Some og_url \<Rightarrow>
                 on_res (re_search_attr re_item_id (get_attr_or_empty og_url ''content''))
                   (\<lambda>m. case m of
                           None \<Rightarrow> pass
                         | Some mt \<Rightarrow> store ''product_id'' (VStr (group mt 1))))"

definition c_basic_info_body :: "node option \<Rightarrow> block" where
  "c_basic_info_body soup =
     seq [store_found soup ''h1'' [(''data-pl'', AttrIs ''product-title'')] None ''title'',
          c_product_id_block soup,
          store ''category'' (c_extract_category soup),
          (if c_extract_store_info soup \<noteq> []
           then store ''store'' (VDict (c_extract_store_info soup)) else pass)]"

definition c_extract_basic_info :: "node option \<Rightarrow> pydict" where
  "c_extract_basic_info soup = try_except (c_basic_info_body soup)"

text \<open>\<open>extract_pricing\<close>.\<close>

definition c_alt_price_block :: "node option \<Rightarrow> block" where
  "c_alt_price_block soup d =
     (if (case dict_get d ''current_price'' of None \<Rightarrow> True | Some v \<Rightarrow> \<not> truthy v)
      then store_found soup ''span'' [(''class'', AttrIs ''price--currentPriceText--V8_y_b5'')]
             None ''current_price'' d
      else pass d)"

definition c_bulk_price_block :: "node option \<Rightarrow> block" where
  "c_bulk_price_block soup =
     on_res (soup_find soup ''span'' [(''style'', AttrHas ''color: #D3031C'')] None)
       (\<lambda>r. case r of
               None \<Rightarrow> pass
             | Some bulk_price \<Rightarrow>
                 if is_substring ''za szt'' (get_text bulk_price)
                 then store ''bulk_price'' (VStr (get_text_strip bulk_price)) else pass)"

definition c_pricing_body :: "node option \<Rightarrow> block" where
  "c_pricing_body soup =
     seq [store_found soup ''span'' [(''class'', AttrIs ''product-price-value'')] None
            ''current_price'',
          c_alt_price_block soup,
          c_bulk_price_block soup,
          store_found soup ''span'' [(''class'', AttrIs ''price--originalPrice'')] None
            ''original_price'',
          store_found soup ''span'' [] (Some ''Cena bez podatku|bez podatku'') ''tax_info'']"

definition c_extract_pricing :: "node option \<Rightarrow> pydict" where
  "c_extract_pricing soup = try_except (c_pricing_body soup)"

text \<open>\<open>extract_reviews_and_ratings\<close>. The review pattern is
  \<^verbatim>\<open>\w+\s+\|\s+\d+\<close>.\<close>

definition pat_reviewer_text :: string where
  "pat_reviewer_text = bsl @ ''w+'' @ bsl @ ''s+'' @ bsl @ ''|'' @ bsl @ ''s+'' @ bsl @ ''d+''"

definition c_review_body :: "node \<Rightarrow> block" where
  "c_review_body review =
     seq [store_found_in review ''span'' [] (Some pat_reviewer_text) ''reviewer_info'',
          store_found_in review ''div'' [(''class'', AttrIs ''list--itemReview--d9Z9Z5Z'')] None
            ''review_text'',
          store_found_in review ''div'' [(''class'', AttrIs ''list--itemSku--idEQSGC'')] None
            ''sku'']"

text \<open>The loop over \<open>review_items[:10]\<close>: an exception in one review leaves the
  loop, and the list is stored only after it.\<close>

fun c_reviews_of :: "node list \<Rightarrow> exn + pydict list" where
  "c_reviews_of [] = Inr []"
| "c_reviews_of (review # more) =
     (case c_review_body review [] of
        (review_data, Some e) \<Rightarrow> Inl e
      | (review_data, None) \<Rightarrow>
          bind_res (c_reviews_of more) (\<lambda>individual_reviews.
            Inr (if review_data \<noteq> [] then review_data # individual_reviews
                 else individual_reviews)))"

definition c_count_block :: "node option \<Rightarrow> string \<Rightarrow> string \<Rightarrow> string \<Rightarrow> block" where
  "c_count_block soup name cls k =
     on_res (soup_find soup name [(''class'', AttrIs cls)] None)
       (\<lambda>r. case r of
               None \<Rightarrow> pass
             | Some elem \<Rightarrow> on_res (int_found re_number (get_text_strip elem)) (store_if k))"

definition c_rating_block :: "node option \<Rightarrow> block" where
  "c_rating_block soup =
     on_res (soup_find soup ''strong'' [] (Some pat_rating_text))
       (\<lambda>r. case r of
               None \<Rightarrow> pass
             | Some rating_elem \<Rightarrow>
                 on_res (float_found re_rating (get_text_strip rating_elem))
                   (store_if ''rating''))"

definition c_review_items :: "node option \<Rightarrow> exn + node list" where
  "c_review_items soup =
     soup_find_all soup ''div'' [(''class'', AttrIs ''list--itemDesc--JcxNPy5'')] None"

definition c_individual_reviews_block :: "node option \<Rightarrow> block" where
  "c_individual_reviews_block soup =
     on_res (bind_res (c_review_items soup)
               (\<lambda>review_items. c_reviews_of (take 10 review_items)))
       (\<lambda>individual_reviews.
          if individual_reviews \<noteq> []
          then store ''individual_reviews'' (VList (map VDict individual_reviews))
          else pass)"

definition c_reviews_body :: "node option \<Rightarrow> block" where
  "c_reviews_body soup =
     seq [c_rating_block soup,
          c_count_block soup ''a'' ''reviewer--reviews--cx7Zs_V'' ''review_count'',
          c_count_block soup ''span'' ''reviewer--sold--ytPeoEy'' ''sold_count'',
          c_individual_reviews_block soup]"

definition c_extract_reviews_and_ratings :: "node option \<Rightarrow> pydict" where
  "c_extract_reviews_and_ratings soup = try_except (c_reviews_body soup)"

text \<open>\<open>extract_product_variations\<close>. \<open>has_class\<close> is
  \<open>name in option.get('class', [])\<close>.\<close>

definition has_class :: "string \<Rightarrow> node \<Rightarrow> bool" where
  "has_class name option =
     (case get_attr option ''class'' of
        None \<Rightarrow> False
      | Some (AList l) \<Rightarrow> name \<in> set l
      | Some (AStr s) \<Rightarrow> is_substring name s)"

definition c_option_body :: "node \<Rightarrow> block" where
  "c_option_body option =
     seq [on_res (find_tag option ''img'' [] None)
            (\<lambda>r. case r of
                    None \<Rightarrow> pass
                  | Some img \<Rightarrow>
                      seq [store ''image'' (attr_pyval (get_attr_or_empty img ''src'')),
                           store ''alt_text'' (attr_pyval (get_attr_or_empty img ''alt''))]),
          (if has_class ''sku-item--selected--ITGY_EO'' option
           then store ''selected'' (VBool True) else pass),
          (if has_class ''sku-item--soldOut--YJfuCGq'' option
           then store ''sold_out'' (VBool True) else pass)]"

fun c_options_of :: "node list \<Rightarrow> exn + pydict list" where
  "c_options_of [] = Inr []"
| "c_options_of (option # more) =
     (case c_option_body option [] of
        (option_data, Some e) \<Rightarrow> Inl e
      | (option_data, None) \<Rightarrow>
          bind_res (c_options_of more) (\<lambda>options.
            Inr (if option_data \<noteq> [] then option_data # options else options)))"

definition c_sku_item_block :: "node \<Rightarrow> block" where
  "c_sku_item_block sku_item =
     on_res (find_tag sku_item ''div'' [(''class'', AttrIs ''sku-item--title--Z0HLO87'')] None)
       (\<lambda>r. case r of
               None \<Rightarrow> pass
             | Some title_elem \<Rightarrow>
                 on_res (bind_res (find_all sku_item ''div'' [(''data-sku-col'', AttrTrue)] None)
                           c_options_of)
                   (\<lambda>options.
                      if options \<noteq> []
                      then store (py_remove_colons (get_text_strip title_elem))
                             (VList (map VDict options))
                      else pass))"

definition c_variations_body :: "node option \<Rightarrow> block" where
  "c_variations_body soup =
     seq [on_res (soup_find soup ''div'' [(''class'', AttrIs ''sku--wrap--xgoW06M'')] None)
            (\<lambda>r. case r of
                    None \<Rightarrow> pass
                  | Some sku_wrapper \<Rightarrow>
                      on_res (find_all sku_wrapper ''div''
                                [(''class'', AttrIs ''sku-item--wrap--t9Qszzx'')] None)
                        (\<lambda>sku_items. for_each sku_items c_sku_item_block)),
          store_found soup ''span'' [(''class'', AttrIs ''sku--menuTitle--UIEMJcG'')] None
            ''current_selection'']"

definition c_extract_product_variations :: "node option \<Rightarrow> pydict" where
  "c_extract_product_variations soup = try_except (c_variations_body soup)"

text \<open>\<open>extract_images\<close>.\<close>

definition c_attr_block :: "node option \<Rightarrow> string \<Rightarrow> (string \<times> attr_filter) list \<Rightarrow> string
    \<Rightarrow> string \<Rightarrow> block" where
  "c_attr_block soup name flt attr k =
     on_res (soup_find soup name flt None)
       (\<lambda>r. case r of
               None \<Rightarrow> pass
             | Some elem \<Rightarrow> store k (attr_pyval (get_attr_or_empty elem attr)))"

definition c_script_images :: "json_loads \<Rightarrow> node \<Rightarrow> block" where
  "c_script_images jl script d =
     (store_parsed jl re_summ_image_path_list (Some ''thumbnail_images'') (get_text script)
        (store_parsed jl re_image_path_list (Some ''gallery_images'') (get_text script) d),
      None)"

definition c_images_body :: "json_loads \<Rightarrow> node option \<Rightarrow> block" where
  "c_images_body jl soup =
     seq [c_attr_block soup ''img'' [(''class'', AttrIs ''magnifier--image--EYYoSlr'')] ''src''
            ''main_image'',
          on_res (soup_find_all soup ''script'' [] (Some ''imagePathList''))
            (\<lambda>script_tags. for_each script_tags (c_script_images jl)),
          c_attr_block soup ''meta'' [(''property'', AttrIs ''og:image'')] ''content''
            ''og_image'']"

definition c_extract_images :: "json_loads \<Rightarrow> node option \<Rightarrow> pydict" where
  "c_extract_images jl soup = try_except (c_images_body jl soup)"

text \<open>\<open>extract_shipping_info\<close>. The delivery pattern is
  \<^verbatim>\<open>\w{3}\s+\d+\s+-\s+\w{3}\s+\d+\<close>.\<close>

definition pat_delivery_text :: string where
  "pat_delivery_text =
     bsl @ ''w{3}'' @ bsl @ ''s+'' @ bsl @ ''d+'' @ bsl @ ''s+-'' @ bsl @ ''s+'' @ bsl @ ''w{3}''
       @ bsl @ ''s+'' @ bsl @ ''d+''"

fun c_policies_of :: "node list \<Rightarrow> exn + pyval list" where
  "c_policies_of [] = Inr []"
| "c_policies_of (item # items) =
     bind_res (find_tag item ''div'' [(''class'', AttrIs ''shipping--title--sZAnuQw'')] None)
       (\<lambda>title_elem.
          case title_elem of
            None \<Rightarrow> c_policies_of items
          | Some t \<Rightarrow>
              bind_res (find_all item ''div'' [(''class'', AttrIs ''shipping--descText--UVpscND'')]
                          None)
                (\<lambda>desc_elems.
                   bind_res (c_policies_of items) (\<lambda>policies.
                     Inr (VDict [(''title'', VStr (get_text_strip t)),
                                 (''descriptions'',
                                  VList (map (\<lambda>desc. VStr (get_text_strip desc)) desc_elems))]
                          # policies))))"

definition c_shipping_body :: "node option \<Rightarrow> block" where
  "c_shipping_body soup =
     seq [store_found soup ''strong'' [] (Some ''Darmowa dostawa.*PKR'')
            ''free_shipping_threshold'',
          store_found soup ''strong'' [] (Some pat_delivery_text) ''delivery_time'',
          store_found soup ''span'' [(''class'', AttrIs ''delivery-v2--to--Mtweg7y'')] None
            ''delivery_to'',
          on_res (bind_res (soup_find_all soup ''div''
                              [(''class'', AttrIs ''shipping--item--F04J6q9'')] None)
                    c_policies_of)
            (\<lambda>policies. if policies \<noteq> [] then store ''policies'' (VList policies) else pass)]"

definition c_extract_shipping_info :: "node option \<Rightarrow> pydict" where
  "c_extract_shipping_info soup = try_except (c_shipping_body soup)"

text \<open>\<open>extract_javascript_data\<close>: a value that \<open>json.loads\<close> rejects is passed over.
  The scripts are found by \<^verbatim>\<open>window\.runParams\<close> and \<^verbatim>\<open>window\._d_c_\<close>.\<close>

definition c_js_store :: "json_loads \<Rightarrow> string \<times> re \<Rightarrow> node \<Rightarrow> block" where
  "c_js_store jl kp script d =
     (case re_search (snd kp) (get_text script) of
        None \<Rightarrow> (d, None)
      | Some m \<Rightarrow>
          (case jl (group m 1) of
             Inr v \<Rightarrow> (dict_set (fst kp) v d, None)
           | Inl e \<Rightarrow> (d, None)))"

definition c_javascript_body :: "json_loads \<Rightarrow> node option \<Rightarrow> block" where
  "c_javascript_body jl soup =
     seq [on_res (soup_find_all soup ''script'' [] (Some (''window'' @ bsl @ ''.runParams'')))
            (\<lambda>script_tags.
               for_each script_tags (c_js_store jl (''runParams'', re_js_assign ''runParams''))),
          on_res (soup_find_all soup ''script'' [] (Some (''window'' @ bsl @ ''._d_c_'')))
            (\<lambda>script_tags.
               for_each script_tags (c_js_store jl (''DCData'', re_js_assign ''_d_c_.DCData'')))]"

definition c_extract_javascript_data :: "json_loads \<Rightarrow> node option \<Rightarrow> pydict" where
  "c_extract_javascript_data jl soup = try_except (c_javascript_body jl soup)"

text \<open>\<open>extract_meta_tags\<close>. The nested \<open>app_links\<close> dictionary is stored empty and
  then filled in place.\<close>

definition c_og_block :: "node option \<Rightarrow> string \<Rightarrow> block" where
  "c_og_block soup name =
     c_attr_block soup ''meta'' [(''property'', AttrIs (''og:'' @ name))] ''content''
       (''og_'' @ name)"

definition c_app_link_block :: "node \<Rightarrow> block" where
  "c_app_link_block link d =
     (if attr_truthy (Some (get_attr_or_empty link ''property''))
         \<and> attr_truthy (Some (get_attr_or_empty link ''content''))
      then (case get_attr_or_empty link ''property'' of
              AList l \<Rightarrow> (d, Some TypeError)
            | AStr p \<Rightarrow>
                (case dict_get d ''app_links'' of
                   Some (VDict app_links) \<Rightarrow>
                     store ''app_links''
                       (VDict (dict_set p (attr_pyval (get_attr_or_empty link ''content''))
                                 app_links)) d
                 | _ \<Rightarrow> (d, Some TypeError)))
      else pass d)"

definition c_meta_body :: "node option \<Rightarrow> block" where
  "c_meta_body soup =
     seq [for_each [''title'', ''description'', ''image'', ''url'', ''type''] (c_og_block soup),
          on_res (soup_find_all soup ''meta'' [(''property'', AttrRe ''^al:'')] None)
            (\<lambda>app_links.
               if app_links \<noteq> []
               then seq [store ''app_links'' (VDict []), for_each app_links c_app_link_block]
               else pass)]"

definition c_extract_meta_tags :: "node option \<Rightarrow> pydict" where
  "c_extract_meta_tags soup = try_except (c_meta_body soup)"



section \<open>Example documents\<close>

text \<open>
  \<open>leaf\<close> is a tag below which no search finds anything; \<open>doc\<close> is a document given
  by its text fragments and the answer to each search. \<open>empty_doc\<close> is the parse of the
  empty markup, and every search of \<open>faulty_doc\<close> raises.
\<close>

definition leaf :: "string \<Rightarrow> (string \<times> attrval) list \<Rightarrow> string list \<Rightarrow> node" where
  "leaf name as ts = Node name as ts (\<lambda>q. Inr []) (\<lambda>p f. Inr None)"

definition doc :: "string list \<Rightarrow> (query \<Rightarrow> node list) \<Rightarrow> node" where
  "doc ts answer = Node ''[document]'' [] ts (\<lambda>q. Inr (answer q)) (\<lambda>p f. Inr None)"

definition empty_doc :: node where
  "empty_doc = doc [] (\<lambda>q. [])"


definition no_json :: json_loads where
  "no_json s = Inl ValueError"

text \<open>\<^verbatim>\<open><span class="product-price-value">US  $9.99</span>\<close>, with two blanks
  after \<open>US\<close>.\<close>

definition price_span :: node where
  "price_span = leaf ''span'' [(''class'', AList [''product-price-value''])] [''US  $9.99'']"

definition price_doc :: node where
  "price_doc =
     doc [''US  $9.99'']
       (\<lambda>q. if q = Css ''span.product-price-value'' then [price_span] else [])"

text \<open>\<^verbatim>\<open><span class="pdp-comp-price-current"> $9.99 </span>\<close>: only the third
  price selector matches.\<close>

definition third_price_span :: node where
  "third_price_span = leaf ''span'' [(''class'', AList [''pdp-comp-price-current''])] ['' $9.99 '']"

definition third_price_doc :: node where
  "third_price_doc =
     doc ['' $9.99 '']
       (\<lambda>q. if q = Css ''.pdp-comp-price-current'' then [third_price_span] else [])"

section \<open>Notions used in the statements\<close>

text \<open>A block keeps a key when it never changes what the dictionary holds there.\<close>

definition keeps :: "string \<Rightarrow> block \<Rightarrow> bool" where
  "keeps k b = (\<forall>d. dict_get (fst (b d)) k = dict_get d k)"

text \<open>
  The specification's wording of normalized text, whitespace-collapsed with leading and
  trailing whitespace trimmed: every run of whitespace becomes one blank, then the ends
  are stripped. It is compared below with what \<open>get_text(strip=True)\<close> returns.
\<close>

function collapse_ws :: "string \<Rightarrow> string" where
  "collapse_ws [] = []"
| "collapse_ws (c # cs) =
     (if py_isspace c then CHR '' '' # collapse_ws (dropWhile py_isspace cs)
      else c # collapse_ws cs)"
  by pat_completeness auto
termination
  by (relation "measure length") (auto simp: length_dropWhile_le less_Suc_eq_le)

definition spec_whitespace_normalized :: "string \<Rightarrow> string" where
  "spec_whitespace_normalized t = py_strip (collapse_ws t)"



text \<open>
  The three sources of the product identifier in the specification's words: the
  canonical-URL meta tag, the current navigation URL when there is a browser, and the
  embedded script variable. Each gives an identifier, or nothing, or raises.
  \<open>first_successful_source\<close> is the specification's priority chain, in which the first
  successful source wins: it gives the first identifier in the order of the sources, a
  source that gives nothing or raises being passed over. It is compared below with what
  \<open>_extract_product_id\<close> returns.
\<close>

definition item_id_in :: "string \<Rightarrow> string option" where
  "item_id_in u = map_option (\<lambda>m. group m 1) (re_search re_item_id u)"

definition source_og_url :: "node \<Rightarrow> exn + string option" where
  \<open>source_og_url soup =
     (case select_one soup ''meta[property="og:url"]'' of
        Inl e \<Rightarrow> Inl e
      | Inr None \<Rightarrow> Inr None
      | Inr (Some tag) \<Rightarrow>
          (case get_attr_or_empty tag ''content'' of
             AStr c \<Rightarrow> Inr (item_id_in c)
           | AList l \<Rightarrow> Inl TypeError))\<close>

definition source_current_url :: "driver \<Rightarrow> exn + string option" where
  "source_current_url drv =
     (case drv of
        None \<Rightarrow> Inr None
      | Some (Inl e) \<Rightarrow> Inl e
      | Some (Inr current_url) \<Rightarrow> Inr (item_id_in current_url))"

definition source_script :: "node \<Rightarrow> exn + string option" where
  "source_script soup =
     (case find_all soup ''script'' [] None of
        Inl e \<Rightarrow> Inl e
      | Inr scripts \<Rightarrow> Inr (first_script_id scripts))"

definition script_id_in :: "string \<Rightarrow> string option" where
  "script_id_in content = map_option (\<lambda>m. group m 1) (re_search re_product_id content)"

fun first_successful_source :: "(exn + string option) list \<Rightarrow> string option" where
  "first_successful_source [] = None"
| "first_successful_source (Inr (Some i) # more) = Some i"
| "first_successful_source (Inr None # more) = first_successful_source more"
| "first_successful_source (Inl e # more) = first_successful_source more"

text \<open>A document whose only identifier is in a script,
  \<^verbatim>\<open><script>var data = {"productId": "1005"};</script>\<close>.\<close>

definition id_script :: node where
  \<open>id_script = leaf ''script'' [] [''var data = {"productId": "1005"};'']\<close>

definition script_id_doc :: node where
  "script_id_doc =
     doc [] (\<lambda>q. if q = Find ''script'' [] None then [id_script] else [])"

text \<open>
  The markup of the end-to-end scenario:
  \<^verbatim>\<open><h1 data-pl="product-title">Wireless Mouse</h1>\<close>,
  \<^verbatim>\<open><span class="product-price-value">$9.99</span>\<close> and
  \<^verbatim>\<open><meta property="og:url" content="https://www.aliexpress.com/item/1005006722922099.html">\<close>.
\<close>

definition og_h1 :: node where
  "og_h1 = leaf ''h1'' [(''data-pl'', AStr ''product-title'')] [''Wireless Mouse'']"

definition og_span :: node where
  "og_span = leaf ''span'' [(''class'', AList [''product-price-value''])] [''$9.99'']"

definition og_meta :: node where
  "og_meta =
     leaf ''meta''
       [(''property'', AStr ''og:url''),
        (''content'', AStr ''https://www.aliexpress.com/item/1005006722922099.html'')] []"

definition og_doc :: node where
  \<open>og_doc =
     doc [''Wireless Mouse'', ''$9.99'']
       (\<lambda>q. if q \<in> set [Css ''h1[data-pl="product-title"]'', Css ''h1'',
                          Find ''h1'' [(''data-pl'', AttrIs ''product-title'')] None]
            then [og_h1]
            else if q \<in> set [Css ''span.product-price-value'',
                               Find ''span'' [(''class'', AttrIs ''product-price-value'')] None]
            then [og_span]
            else if q \<in> set [Css ''meta[property="og:url"]'', Css ''meta[property^="og:"]'',
                               Find ''meta'' [(''property'', AttrIs ''og:url'')] None]
            then [og_meta]
            else [])\<close>









text \<open>
  Variation markup, as far as the variation extractors search it: a wrapper
  \<^verbatim>\<open><div class="sku--wrap--xgoW06M">\<close> holding axes
  \<^verbatim>\<open><div class="sku-item--wrap--t9Qszzx">\<close>, each with a title
  \<^verbatim>\<open><div class="sku-item--title--Z0HLO87">\<close> and option elements
  \<^verbatim>\<open><div data-sku-col="..." class="...">\<close>.
\<close>

definition sku_option :: "string list \<Rightarrow> string list \<Rightarrow> node" where
  "sku_option classes texts =
     leaf ''div'' [(''data-sku-col'', AStr ''1''), (''class'', AList classes)] texts"

definition variation_axis :: "string \<Rightarrow> node list \<Rightarrow> node" where
  "variation_axis title options =
     Node ''div'' [(''class'', AList [''sku-item--wrap--t9Qszzx''])]
       (title # concat (map strings options))
       (\<lambda>q. if q \<in> set [Css ''.sku-item--title--Z0HLO87, .variation-title'',
                           Find ''div'' [(''class'', AttrIs ''sku-item--title--Z0HLO87'')] None]
            then Inr [leaf ''div'' [(''class'', AList [''sku-item--title--Z0HLO87''])] [title]]
            else if q \<in> set [Css ''[data-sku-col], .variation-option'',
                                Find ''div'' [(''data-sku-col'', AttrTrue)] None]
            then Inr options
            else Inr [])
       (\<lambda>p f. Inr None)"

definition sku_wrapper_div :: "node list \<Rightarrow> node" where
  "sku_wrapper_div axes =
     Node ''div'' [(''class'', AList [''sku--wrap--xgoW06M''])] (concat (map strings axes))
       (\<lambda>q. if q \<in> set [Css ''.sku-item--wrap--t9Qszzx, .sku-item'',
                           Find ''div'' [(''class'', AttrIs ''sku-item--wrap--t9Qszzx'')] None]
            then Inr axes else Inr [])
       (\<lambda>p f. Inr None)"

definition variation_doc :: "node list \<Rightarrow> node" where
  "variation_doc axes =
     doc (concat (map strings axes))
       (\<lambda>q. if q \<in> set [Css ''.sku--wrap--xgoW06M, .product-sku, .sku-wrap'',
                           Find ''div'' [(''class'', AttrIs ''sku--wrap--xgoW06M'')] None]
            then [sku_wrapper_div axes] else [])"

text \<open>An axis whose two options carry only a selected and a sold-out class, an axis
  whose two options carry only a text, and an axis with a title and no option.\<close>

definition flag_axis :: node where
  "flag_axis =
     variation_axis ''Color:''
       [sku_option [''sku-item--image--jMUnnGA'', ''sku-item--selected--ITGY_EO''] [],
        sku_option [''sku-item--image--jMUnnGA'', ''sku-item--soldOut--YJfuCGq''] []]"

definition text_axis :: node where
  "text_axis =
     variation_axis ''Size:''
       [sku_option [''sku-item--text--hYfAukP''] [''M''],
        sku_option [''sku-item--text--hYfAukP''] [''L'']]"

definition bare_axis :: node where
  "bare_axis = variation_axis ''Length:'' []"



text \<open>
  What the embedded-script extractors store for one pattern and one script content.
  \<open>js_value\<close> is the specification's rule: nothing when the pattern does not match,
  else the parsed value of the first group, or the text of the group when the parser
  raises. \<open>js_parsed\<close> is the rule without the fallback: a value only when the parser
  succeeds. \<open>last_stored\<close> folds a rule over the scripts of the document, a later value
  replacing an earlier one.
\<close>

definition js_value :: "json_loads \<Rightarrow> re \<Rightarrow> string \<Rightarrow> pyval option" where
  "js_value jl p content =
     (case re_search p content of
        None \<Rightarrow> None
      | Some m \<Rightarrow> Some (case jl (group m 1) of Inr v \<Rightarrow> v | Inl e \<Rightarrow> VStr (group m 1)))"

definition js_parsed :: "json_loads \<Rightarrow> re \<Rightarrow> string \<Rightarrow> pyval option" where
  "js_parsed jl p content =
     (case re_search p content of
        None \<Rightarrow> None
      | Some m \<Rightarrow> (case jl (group m 1) of Inr v \<Rightarrow> Some v | Inl e \<Rightarrow> None))"

fun last_stored :: "(string \<Rightarrow> pyval option) \<Rightarrow> node list \<Rightarrow> pyval option \<Rightarrow> pyval option" where
  "last_stored rule [] acc = acc"
| "last_stored rule (script # scripts) acc =
     last_stored rule scripts
       (case rule (get_text script) of None \<Rightarrow> acc | Some v \<Rightarrow> Some v)"

text \<open>
  A document with one script, and a \<open>json.loads\<close> that knows the text
  \<^verbatim>\<open>{"foo": 1}\<close> and rejects the other texts used here, which are no JSON.
\<close>

definition script_doc :: "string \<Rightarrow> node" where
  "script_doc content =
     doc []
       (\<lambda>q. if q \<in> set [Find ''script'' [] None,
                           Find ''script'' [] (Some (''window'' @ bsl @ ''.runParams''))]
            then [leaf ''script'' [] [content]] else [])"

definition json_foo :: json_loads where
  \<open>json_foo s = (if s = ''{"foo": 1}'' then Inr (VDict [(''foo'', VInt 1)]) else Inl ValueError)\<close>


section \<open>Blocks, keys and cascades\<close>

lemma dict_get_set: "dict_get (dict_set k v d) k' = (if k' = k then Some v else dict_get d k')"
  by (simp add: dict_get_def dict_set_def update_conv')

lemma seq_Cons_ok: "b d = (d', None) \<Longrightarrow> seq (b # bs) d = seq bs d'"
  by simp

lemma seq_Cons_raise: "b d = (d', Some e) \<Longrightarrow> seq (b # bs) d = (d', Some e)"
  by simp

lemma keeps_pass: "keeps k pass"
  by (simp add: keeps_def pass_def)

lemma keeps_store: "k \<noteq> k' \<Longrightarrow> keeps k (store k' v)"
  by (simp add: keeps_def store_def dict_get_set)

lemma keeps_store_if: "k \<noteq> k' \<Longrightarrow> keeps k (store_if k' r)"
  by (cases r) (simp_all add: store_if_def keeps_pass keeps_store)

lemma keeps_on_res: "(\<And>x. keeps k (f x)) \<Longrightarrow> keeps k (on_res q f)"
  by (cases q) (simp_all add: keeps_def on_res_def)

lemma keeps_seq: "(\<And>b. b \<in> set bs \<Longrightarrow> keeps k b) \<Longrightarrow> keeps k (seq bs)"
proof (induction bs)
  case Nil
  show ?case by (simp add: keeps_def)
next
  case (Cons b bs)
  have kb: "keeps k b" and ks: "keeps k (seq bs)"
    using Cons by simp_all
  show ?case
    unfolding keeps_def
  proof
    fix d
    obtain d' r where bd: "b d = (d', r)" by (cases "b d")
    have g: "dict_get d' k = dict_get d k"
      using kb bd by (auto simp: keeps_def dest: spec [of _ d])
    show "dict_get (fst (seq (b # bs) d)) k = dict_get d k"
    proof (cases r)
      case None
      then show ?thesis using bd g ks by (simp add: keeps_def)
    next
      case (Some e)
      then show ?thesis using bd g by simp
    qed
  qed
qed

lemma keeps_for_each: "(\<And>x. keeps k (f x)) \<Longrightarrow> keeps k (for_each xs f)"
  unfolding for_each_def by (rule keeps_seq) auto

lemma keeps_store_text: "k \<noteq> k' \<Longrightarrow> keeps k (store_text soup sel k')"
  unfolding store_text_def
  by (rule keeps_on_res) (simp add: keeps_pass keeps_store split: option.split)

lemma keepsD: "keeps k b \<Longrightarrow> dict_get (fst (b d)) k = dict_get d k"
  by (simp add: keeps_def)

lemma cascade_first:
  "\<lbrakk>\<forall>s'\<in>set pre. select_one soup s' = Inr None; select_one soup s = Inr (Some n);
    accept n = Inr (Some v)\<rbrakk>
   \<Longrightarrow> cascade soup (pre @ s # post) accept = Inr (Some v)"
  by (induction pre) simp_all


lemma keeps_bulk_price: "k \<noteq> ''bulk_price'' \<Longrightarrow> keeps k (bulk_price_block soup)"
  unfolding bulk_price_block_def
  by (rule keeps_on_res) (simp add: keeps_pass keeps_store split: option.split prod.split)

lemma keeps_tax: "k \<noteq> ''tax_info'' \<Longrightarrow> keeps k (tax_block soup)"
  unfolding tax_block_def
  by (rule keeps_on_res) (simp add: keeps_pass keeps_store split: option.split prod.split)

lemma keeps_currency: "k \<noteq> ''currency'' \<Longrightarrow> keeps k currency_block"
  by (auto simp: keeps_def currency_block_def pass_def store_def dict_get_set
           split: option.split pyval.split)

lemma pricing_tail_keeps_current:
  "keeps ''current_price''
     (seq [on_res (cascade soup original_price_selectors text_of) (store_if ''original_price''),
           bulk_price_block soup,
           store_text soup ''.discount-percent, .sale-percent'' ''discount'',
           currency_block,
           tax_block soup])"
  by (rule keeps_seq)
     (auto intro!: keeps_on_res keeps_store_if keeps_bulk_price keeps_store_text keeps_currency
                   keeps_tax)

lemmas doc_defs = doc_def leaf_def select_one_def select_def first_of_def find_all_def
  find_tag_def get_text_def get_text_strip_def get_attr_def get_attr_or_empty_def
  py_strip_def py_isspace_def

lemmas block_defs = try_except_def on_res_def store_if_def store_def pass_def store_text_def
  dict_set_def dict_get_def bind_res_def for_each_def

lemmas re_defs = re_search_def re_search_from.simps ms.simps rest_len_def group_def Plus_def
  Opt_def re_digit_def re_space_def is_digit_def
















lemma cascade_no_raise:
  "\<forall>s\<in>set sels. \<forall>e. select_one soup s \<noteq> Inl e \<Longrightarrow> (\<And>n. \<exists>r. accept n = Inr r)
   \<Longrightarrow> \<exists>r. cascade soup sels accept = Inr r"
proof (induction sels)
  case Nil
  show ?case by simp
next
  case (Cons s ss)
  obtain r where r: "select_one soup s = Inr r"
    using Cons.prems(1) by (cases "select_one soup s") auto
  show ?case
  proof (cases r)
    case None
    then show ?thesis using r Cons by simp
  next
    case (Some n)
    obtain a where a: "accept n = Inr a" using Cons.prems(2) by blast
    show ?thesis using r Some a Cons by (cases a) simp_all
  qed
qed

lemma case_result_id:
  "(case x of (d', None) \<Rightarrow> (d', None) | (d', Some e) \<Rightarrow> (d', Some e)) = x"
  by (cases x) (auto split: option.split)


lemmas live_defs = extract_basic_info_def basic_info_body_def title_selectors_def
  extract_product_id_def product_id_body_def product_id_from_driver_def
  product_id_from_scripts_def extract_category_def category_body_def category_from_meta_def
  extract_brand_def brand_selectors_def brand_of_def
  extract_pricing_def pricing_body_def price_selectors_def original_price_selectors_def
  text_of_def bulk_price_block_def currency_block_def tax_block_def
  extract_reviews_and_ratings_def reviews_body_def rating_block_def review_count_block_def
  sold_count_block_def individual_reviews_block_def review_items_selector_def
  review_selectors_def sold_selectors_def
  review_count_of_def sold_count_of_def individual_reviews_of_def
  parse_individual_review_def review_body_def
  extract_product_variations_def variations_body_def sku_axes_block_def
  max_quantity_block_def
  parse_variation_item_def variation_body_def option_body_def classes_of_def
  extract_images_def images_body_def main_img_selectors_def main_image_of_def
  gallery_fallback_def video_block_def script_images_def store_parsed_def
  extract_shipping_info_def shipping_body_def delivery_patterns_def pat_free_shipping_def
  extract_specifications_def specifications_body_def description_block_def table_block_def
  row_block_def
  extract_seller_info_def seller_body_def store_link_block_def found_in_def
  extract_javascript_data_def javascript_body_def js_script_def js_store_def
  extract_meta_tags_def meta_body_def app_links_block_def important_meta_block_def
  og_tag_block_def app_tag_block_def
  detect_page_language_def language_body_def language_from_meta_def language_from_text_def

lemmas comp_defs = soup_find_def soup_find_all_def store_found_def store_found_in_def
  c_extract_category_def c_store_info_body_def c_extract_store_info_def
  c_product_id_block_def c_basic_info_body_def c_extract_basic_info_def
  c_alt_price_block_def c_bulk_price_block_def c_pricing_body_def c_extract_pricing_def
  c_review_body_def c_count_block_def c_reviews_body_def c_rating_block_def
  c_review_items_def c_individual_reviews_block_def c_extract_reviews_and_ratings_def
  c_option_body_def c_sku_item_block_def c_variations_body_def
  c_extract_product_variations_def c_attr_block_def c_script_images_def c_images_body_def
  c_extract_images_def c_shipping_body_def c_extract_shipping_info_def c_js_store_def
  c_javascript_body_def c_extract_javascript_data_def c_og_block_def c_app_link_block_def
  c_meta_body_def c_extract_meta_tags_def


lemma first_successful_single: "first_successful_source [Inr r] = r"
  by (cases r) simp_all

lemma product_id_cases:
  "extract_product_id drv soup
     = (case source_og_url soup of
          Inl e \<Rightarrow> None
        | Inr (Some i) \<Rightarrow> Some i
        | Inr None \<Rightarrow>
            (case source_current_url drv of
               Inl e \<Rightarrow> None
             | Inr (Some i) \<Rightarrow> Some i
             | Inr None \<Rightarrow> (case source_script soup of Inl e \<Rightarrow> None | Inr r \<Rightarrow> r)))"
  by (auto simp: extract_product_id_def product_id_body_def product_id_from_driver_def
        product_id_from_scripts_def source_og_url_def source_current_url_def source_script_def
        item_id_in_def bind_res_def
      split: sum.split option.split attrval.split)

lemma first_script_id_found:
  "\<lbrakk>\<forall>s\<in>set pre. script_id_in (get_text s) = None; script_id_in (get_text script) = Some i\<rbrakk>
   \<Longrightarrow> first_script_id (pre @ script # post) = Some i"
  by (induction pre) (auto simp: script_id_in_def split: option.split)

lemma first_script_id_none:
  "\<forall>s\<in>set scripts. script_id_in (get_text s) = None \<Longrightarrow> first_script_id scripts = None"
  by (induction scripts) (auto simp: script_id_in_def split: option.split)

lemma basic_info_no_product_id:
  assumes "extract_product_id drv soup = None"
  shows "dict_get (extract_basic_info drv soup) ''product_id'' = None"
proof -
  have "keeps ''product_id'' (basic_info_body drv soup)"
    unfolding basic_info_body_def using assms
    by (intro keeps_seq) (auto intro!: keeps_on_res keeps_store keeps_store_if keeps_pass)
  from keepsD [OF this, of "[]"] show ?thesis
    by (simp add: extract_basic_info_def try_except_def dict_get_def)
qed

lemma c_basic_info_no_product_id:
  assumes "find_tag soup ''meta'' [(''property'', AttrIs ''og:url'')] None = Inr None
     \<or> (find_tag soup ''meta'' [(''property'', AttrIs ''og:url'')] None = Inr (Some tag)
        \<and> get_attr_or_empty tag ''content'' = AStr u \<and> item_id_in u = None)"
  shows "dict_get (c_extract_basic_info (Some soup)) ''product_id'' = None"
proof -
  have p: "c_product_id_block (Some soup) = pass"
    using assms
    by (auto simp: c_product_id_block_def soup_find_def on_res_def item_id_in_def fun_eq_iff)
  have "keeps ''product_id'' (c_basic_info_body (Some soup))"
    unfolding c_basic_info_body_def p store_found_def
    by (intro keeps_seq)
       (auto intro!: keeps_on_res keeps_store keeps_pass split: option.split)
  from keepsD [OF this, of "[]"] show ?thesis
    by (simp add: c_extract_basic_info_def try_except_def dict_get_def)
qed

lemma basic_info_product_id:
  assumes t: "\<forall>s\<in>set title_selectors. \<forall>e. select_one soup s \<noteq> Inl e"
      and p: "extract_product_id drv soup = Some i" and i: "i \<noteq> []"
  shows "dict_get (extract_basic_info drv soup) ''product_id'' = Some (VStr i)"
proof -
  obtain r where r: "cascade soup title_selectors (\<lambda>elem. Inr (Some (VStr (get_text_strip elem))))
      = Inr r"
    using cascade_no_raise [OF t, of "\<lambda>elem. Inr (Some (VStr (get_text_strip elem)))"]
    by auto
  obtain d1 where d1: "on_res (cascade soup title_selectors
        (\<lambda>elem. Inr (Some (VStr (get_text_strip elem))))) (store_if ''title'') [] = (d1, None)"
    using r by (cases r) (simp_all add: on_res_def store_if_def pass_def store_def)
  have k: "keeps ''product_id''
      (seq [store ''category'' (extract_category soup), store_if ''brand'' (extract_brand soup)])"
    by (rule keeps_seq) (auto intro!: keeps_store keeps_store_if)
  have "dict_get (extract_basic_info drv soup) ''product_id''
      = dict_get (dict_set ''product_id'' (VStr i) d1) ''product_id''"
    unfolding extract_basic_info_def try_except_def basic_info_body_def
    using d1 p i keepsD [OF k] by (simp add: store_def)
  then show ?thesis by (simp add: dict_get_set)
qed

lemma c_basic_info_product_id:
  assumes t: "\<forall>e. find_tag soup ''h1'' [(''data-pl'', AttrIs ''product-title'')] None \<noteq> Inl e"
      and og: "find_tag soup ''meta'' [(''property'', AttrIs ''og:url'')] None = Inr (Some tag)"
      and c: "get_attr_or_empty tag ''content'' = AStr u"
      and m: "item_id_in u = Some i"
  shows "dict_get (c_extract_basic_info (Some soup)) ''product_id'' = Some (VStr i)"
proof -
  have "snd (store_found (Some soup) ''h1'' [(''data-pl'', AttrIs ''product-title'')]
      None ''title'' []) = None"
    using t
    by (cases "find_tag soup ''h1'' [(''data-pl'', AttrIs ''product-title'')] None")
       (auto simp: store_found_def soup_find_def on_res_def pass_def store_def
             split: option.split)
  then obtain d1 where d1: "store_found (Some soup) ''h1''
      [(''data-pl'', AttrIs ''product-title'')] None ''title'' [] = (d1, None)"
    by (cases "store_found (Some soup) ''h1''
      [(''data-pl'', AttrIs ''product-title'')] None ''title'' []") auto
  obtain mt where mt: "re_search re_item_id u = Some mt" "group mt 1 = i"
    using m by (auto simp: item_id_in_def)
  have p: "c_product_id_block (Some soup) d1 = (dict_set ''product_id'' (VStr i) d1, None)"
    using og c mt by (simp add: c_product_id_block_def soup_find_def on_res_def store_def)
  have k: "keeps ''product_id''
      (seq [store ''category'' (c_extract_category (Some soup)),
            (if c_extract_store_info (Some soup) \<noteq> []
             then store ''store'' (VDict (c_extract_store_info (Some soup))) else pass)])"
    by (rule keeps_seq) (auto intro!: keeps_store keeps_pass)
  have "dict_get (c_extract_basic_info (Some soup)) ''product_id''
      = dict_get (dict_set ''product_id'' (VStr i) d1) ''product_id''"
    unfolding c_extract_basic_info_def try_except_def c_basic_info_body_def
    using d1 p keepsD [OF k] by simp
  then show ?thesis by (simp add: dict_get_set)
qed

lemma item_id_example:
  "item_id_in ''https://www.aliexpress.com/item/1005006722922099.html''
     = Some ''1005006722922099''"
  by (simp add: item_id_in_def re_item_id_def re_defs)













lemma dict_set_nonempty: "dict_set k v d \<noteq> []"
  by (cases d) (simp_all add: dict_set_def)

lemma option_retained:
  assumes "select_one option ''img'' = Inr r"
  shows "fst (option_body option []) \<noteq> [] \<longleftrightarrow>
         (r \<noteq> None \<or> get_text_strip option \<noteq> []
          \<or> list_ex (\<lambda>cls. is_substring ''selected'' cls) (classes_of option)
          \<or> list_ex (\<lambda>cls. is_substring ''soldOut'' cls \<or> is_substring ''sold-out'' cls)
               (classes_of option))"
  using assms
  by (cases r)
     (simp_all add: option_body_def on_res_def store_def pass_def dict_set_nonempty
        case_result_id)

lemma c_option_retained:
  assumes "find_tag option ''img'' [] None = Inr r"
  shows "fst (c_option_body option []) \<noteq> [] \<longleftrightarrow>
         (r \<noteq> None \<or> has_class ''sku-item--selected--ITGY_EO'' option
          \<or> has_class ''sku-item--soldOut--YJfuCGq'' option)"
  using assms
  by (cases r)
     (simp_all add: c_option_body_def on_res_def store_def pass_def dict_set_nonempty
        case_result_id)

lemma options_of_retained:
  "options_of options = Inr os \<Longrightarrow>
   os = filter (\<lambda>option_data. option_data \<noteq> []) (map (\<lambda>option. fst (option_body option [])) options)"
proof (induction options arbitrary: os)
  case Nil
  then show ?case by simp
next
  case (Cons o1 more)
  then show ?case
    by (auto simp: bind_res_def split: prod.splits option.splits sum.splits if_splits)
qed

lemma c_options_of_retained:
  "c_options_of options = Inr os \<Longrightarrow>
   os = filter (\<lambda>option_data. option_data \<noteq> [])
          (map (\<lambda>option. fst (c_option_body option [])) options)"
proof (induction options arbitrary: os)
  case Nil
  then show ?case by simp
next
  case (Cons o1 more)
  then show ?case
    by (auto simp: bind_res_def split: prod.splits option.splits sum.splits if_splits)
qed

lemma variation_item_axis:
  assumes "select_one sku_item ''.sku-item--title--Z0HLO87, .variation-title'' = Inr (Some t)"
      and "select sku_item ''[data-sku-col], .variation-option'' = Inr options"
      and "options_of options = Inr os"
  shows "parse_variation_item sku_item
     = (if os = [] then []
        else [(py_strip (py_remove_colons (get_text_strip t)), VList (map VDict os))])"
  using assms
  by (simp add: parse_variation_item_def variation_body_def try_except_def on_res_def
        bind_res_def store_def pass_def dict_set_def)

lemma c_sku_item_axis:
  assumes "find_tag sku_item ''div'' [(''class'', AttrIs ''sku-item--title--Z0HLO87'')] None
      = Inr (Some t)"
      and "find_all sku_item ''div'' [(''data-sku-col'', AttrTrue)] None = Inr options"
      and "c_options_of options = Inr os"
  shows "c_sku_item_block sku_item d
     = (if os = [] then (d, None)
        else (dict_set (py_remove_colons (get_text_strip t)) (VList (map VDict os)) d, None))"
  using assms
  by (simp add: c_sku_item_block_def on_res_def bind_res_def store_def pass_def)

lemma option_keys:
  "set (dict_keys (fst (option_body option [])))
     \<subseteq> {''image'', ''alt_text'', ''text'', ''selected'', ''sold_out''}"
  by (cases "select_one option ''img''")
     (auto simp: option_body_def on_res_def store_def pass_def dict_set_def dict_keys_def
           split: option.splits)

lemmas variation_doc_defs = sku_option_def variation_axis_def sku_wrapper_div_def
  variation_doc_def flag_axis_def text_axis_def bare_axis_def

lemmas string_defs = py_remove_colons_def dict_update_def dict_keys_def has_class_def








subsection \<open>The embedded-script extractors\<close>

lemma js_store_get:
  "dict_get (js_store jl content (k', p') d) k
     = (if k = k' then (case js_value jl p' content of None \<Rightarrow> dict_get d k | Some v \<Rightarrow> Some v)
        else dict_get d k)"
  by (auto simp: js_store_def js_value_def dict_get_set split: option.split sum.split)

lemma js_script_unfold:
  "js_script jl script d
      = js_store jl (get_text script) (''pageData'', re_js_assign ''pageData'')
         (js_store jl (get_text script) (''productData'', re_js_assign ''productData'')
           (js_store jl (get_text script) (''DCData'', re_js_assign ''_d_c_.DCData'')
             (js_store jl (get_text script) (''runParams'', re_js_assign ''runParams'') d)))"
  by (simp add: js_script_def js_patterns_def)

lemma js_script_get:
  assumes "(k, p) \<in> set js_patterns"
  shows "dict_get (js_script jl script d) k
     = (case js_value jl p (get_text script) of None \<Rightarrow> dict_get d k | Some v \<Rightarrow> Some v)"
proof -
  have keys: "k = ''runParams'' \<and> p = re_js_assign ''runParams''
      \<or> k = ''DCData'' \<and> p = re_js_assign ''_d_c_.DCData''
      \<or> k = ''productData'' \<and> p = re_js_assign ''productData''
      \<or> k = ''pageData'' \<and> p = re_js_assign ''pageData''"
    using assms by (simp add: js_patterns_def)
  show ?thesis
    using keys unfolding js_script_unfold
    by (elim disjE conjE) (simp_all add: js_store_get split: option.split)
qed

lemma js_fold_get:
  assumes "(k, p) \<in> set js_patterns"
  shows "dict_get (foldl (\<lambda>acc script. js_script jl script acc) d scripts) k
     = last_stored (js_value jl p) scripts (dict_get d k)"
proof (induction scripts arbitrary: d)
  case Nil
  show ?case by simp
next
  case (Cons script scripts)
  show ?case
    by (simp add: Cons.IH js_script_get [OF assms])
qed

lemma javascript_data_get:
  assumes "find_all soup ''script'' [] None = Inr scripts" and "(k, p) \<in> set js_patterns"
  shows "dict_get (extract_javascript_data jl soup) k = last_stored (js_value jl p) scripts None"
  using assms(1) js_fold_get [OF assms(2), of jl "[]" scripts]
  by (simp add: extract_javascript_data_def javascript_body_def try_except_def on_res_def
      dict_get_def)

lemma c_js_store_get:
  "c_js_store jl (k, p) script d = (d', r) \<Longrightarrow>
     r = None \<and> dict_get d' k
       = (case js_parsed jl p (get_text script) of None \<Rightarrow> dict_get d k | Some v \<Rightarrow> Some v)"
  by (auto simp: c_js_store_def js_parsed_def dict_get_set split: option.splits sum.splits)

lemma c_js_each_get:
  "snd (for_each scripts (c_js_store jl (k, p)) d) = None
   \<and> dict_get (fst (for_each scripts (c_js_store jl (k, p)) d)) k
       = last_stored (js_parsed jl p) scripts (dict_get d k)"
proof (induction scripts arbitrary: d)
  case Nil
  show ?case by (simp add: for_each_def)
next
  case (Cons script scripts)
  obtain d' r where step: "c_js_store jl (k, p) script d = (d', r)"
    by (cases "c_js_store jl (k, p) script d") simp
  have r: "r = None"
    and d': "dict_get d' k
       = (case js_parsed jl p (get_text script) of None \<Rightarrow> dict_get d k | Some v \<Rightarrow> Some v)"
    using c_js_store_get [OF step] by simp_all
  have "for_each (script # scripts) (c_js_store jl (k, p)) d
      = for_each scripts (c_js_store jl (k, p)) d'"
    using step r by (simp add: for_each_def)
  then show ?case
    using Cons.IH [of d'] d' by simp
qed

lemma keeps_c_js_store: "k \<noteq> fst kp \<Longrightarrow> keeps k (c_js_store jl kp script)"
  by (auto simp: keeps_def c_js_store_def dict_get_set split: option.split sum.split)

lemma keeps_c_js_each: "k \<noteq> fst kp \<Longrightarrow> keeps k (for_each scripts (c_js_store jl kp))"
  by (rule keeps_for_each) (rule keeps_c_js_store)

lemma c_javascript_run_params:
  assumes "soup_find_all csoup ''script'' [] (Some (''window'' @ bsl @ ''.runParams'')) = Inr scripts"
  shows "dict_get (c_extract_javascript_data jl csoup) ''runParams''
     = last_stored (js_parsed jl (re_js_assign ''runParams'')) scripts None"
proof -
  let ?A = "for_each scripts (c_js_store jl (''runParams'', re_js_assign ''runParams''))"
  let ?B = "on_res (soup_find_all csoup ''script'' [] (Some (''window'' @ bsl @ ''._d_c_'')))
            (\<lambda>script_tags.
               for_each script_tags (c_js_store jl (''DCData'', re_js_assign ''_d_c_.DCData'')))"
  obtain d1 where A: "?A [] = (d1, None)"
    using c_js_each_get [of scripts jl "''runParams''" "re_js_assign ''runParams''" "[]"]
    by (cases "?A []") simp
  have d1: "dict_get d1 ''runParams''
      = last_stored (js_parsed jl (re_js_assign ''runParams'')) scripts None"
    using c_js_each_get [of scripts jl "''runParams''" "re_js_assign ''runParams''" "[]"] A
    by (simp add: dict_get_def)
  have "keeps ''runParams'' ?B"
    by (rule keeps_on_res) (rule keeps_c_js_each, simp)
  then have B: "dict_get (fst (?B d1)) ''runParams'' = dict_get d1 ''runParams''"
    by (rule keepsD)
  have "c_extract_javascript_data jl csoup = fst (?B d1)"
    using assms A
    by (cases "?B d1") (auto simp: c_extract_javascript_data_def c_javascript_body_def
        try_except_def on_res_def split: option.split)
  then show ?thesis
    using B d1 by simp
qed

lemma c_javascript_dc_data:
  assumes "soup_find_all csoup ''script'' [] (Some (''window'' @ bsl @ ''.runParams'')) = Inr scripts"
      and "soup_find_all csoup ''script'' [] (Some (''window'' @ bsl @ ''._d_c_'')) = Inr scripts'"
  shows "dict_get (c_extract_javascript_data jl csoup) ''DCData''
     = last_stored (js_parsed jl (re_js_assign ''_d_c_.DCData'')) scripts' None"
proof -
  let ?A = "for_each scripts (c_js_store jl (''runParams'', re_js_assign ''runParams''))"
  let ?B = "for_each scripts' (c_js_store jl (''DCData'', re_js_assign ''_d_c_.DCData''))"
  obtain d1 where A: "?A [] = (d1, None)"
    using c_js_each_get [of scripts jl "''runParams''" "re_js_assign ''runParams''" "[]"]
    by (cases "?A []") simp
  have "keeps ''DCData'' ?A"
    by (rule keeps_c_js_each) simp
  from keepsD [OF this, of "[]"] A have d1: "dict_get d1 ''DCData'' = None"
    by (simp add: dict_get_def)
  have B: "dict_get (fst (?B d1)) ''DCData''
      = last_stored (js_parsed jl (re_js_assign ''_d_c_.DCData'')) scripts' None"
    using c_js_each_get [of scripts' jl "''DCData''" "re_js_assign ''_d_c_.DCData''" d1] d1
    by simp
  have "c_extract_javascript_data jl csoup = fst (?B d1)"
    using assms A
    by (cases "?B d1") (auto simp: c_extract_javascript_data_def c_javascript_body_def
        try_except_def on_res_def split: option.split)
  then show ?thesis
    using B by simp
qed


subsection \<open>The inputs of the assembled record\<close>

lemma timestamp_only:
  "filter (\<lambda>kv. fst kv \<noteq> ''scraping_timestamp'') (extract_all_data jl drv now1 soup url)
   = filter (\<lambda>kv. fst kv \<noteq> ''scraping_timestamp'') (extract_all_data jl drv now2 soup url)"
  by (simp add: extract_all_data_def)

lemma driver_only_basic_info:
  "filter (\<lambda>kv. fst kv \<noteq> ''basic_info'') (extract_all_data jl drv1 now soup url)
   = filter (\<lambda>kv. fst kv \<noteq> ''basic_info'') (extract_all_data jl drv2 now soup url)"
  by (simp add: extract_all_data_def)

lemma same_product_id_same_record:
  "extract_product_id drv1 soup = extract_product_id drv2 soup \<Longrightarrow>
     extract_all_data jl drv1 now soup url = extract_all_data jl drv2 now soup url"
  by (simp add: extract_all_data_def extract_basic_info_def basic_info_body_def)

lemma product_id_driver_free:
  assumes "source_og_url soup \<noteq> Inr None \<or> source_current_url drv1 = source_current_url drv2"
  shows "extract_product_id drv1 soup = extract_product_id drv2 soup"
proof (cases "source_og_url soup")
  case (Inl e)
  then show ?thesis by (simp add: product_id_cases)
next
  case (Inr r)
  show ?thesis
  proof (cases r)
    case None
    then show ?thesis using assms Inr by (simp add: product_id_cases)
  next
    case (Some i)
    then show ?thesis using Inr by (simp add: product_id_cases)
  qed
qed

lemma basic_info_other_keys:
  assumes "k \<noteq> ''product_id''"
  shows "dict_get (extract_basic_info drv1 soup) k = dict_get (extract_basic_info drv2 soup) k"
proof -
  let ?T = "on_res (cascade soup title_selectors (\<lambda>elem. Inr (Some (VStr (get_text_strip elem)))))
            (store_if ''title'')"
  let ?P = "\<lambda>drv. (case extract_product_id drv soup of
             Some product_id \<Rightarrow>
               if product_id \<noteq> [] then store ''product_id'' (VStr product_id) else pass
           | None \<Rightarrow> pass)"
  let ?R = "[store ''category'' (extract_category soup), store_if ''brand'' (extract_brand soup)]"
  obtain d1 r where T: "?T [] = (d1, r)" by (cases "?T []")
  have P: "\<And>drv. \<exists>d2. ?P drv d1 = (d2, None) \<and> dict_get d2 k = dict_get d1 k"
    using assms by (auto simp: store_def pass_def dict_get_set split: option.split)
  have R: "\<And>d2. snd (seq ?R d2) = None
      \<and> dict_get (fst (seq ?R d2)) k
        = (if k = ''brand'' \<and> extract_brand soup \<noteq> None then extract_brand soup
           else if k = ''category'' then Some (extract_category soup) else dict_get d2 k)"
    by (auto simp: store_def store_if_def pass_def dict_get_set split: option.split)
  have body: "\<And>drv. dict_get (extract_basic_info drv soup) k
      = (case r of Some e \<Rightarrow> dict_get d1 k
         | None \<Rightarrow> (if k = ''brand'' \<and> extract_brand soup \<noteq> None then extract_brand soup
           else if k = ''category'' then Some (extract_category soup) else dict_get d1 k))"
  proof -
    fix drv
    obtain d2 where d2: "?P drv d1 = (d2, None)" "dict_get d2 k = dict_get d1 k"
      using P [of drv] by blast
    show "dict_get (extract_basic_info drv soup) k
      = (case r of Some e \<Rightarrow> dict_get d1 k
         | None \<Rightarrow> (if k = ''brand'' \<and> extract_brand soup \<noteq> None then extract_brand soup
           else if k = ''category'' then Some (extract_category soup) else dict_get d1 k))"
    proof (cases r)
      case (Some e)
      then show ?thesis
        using T by (simp add: extract_basic_info_def basic_info_body_def try_except_def)
    next
      case None
      have "extract_basic_info drv soup = fst (seq ?R d2)"
        using T None d2(1)
        by (simp add: extract_basic_info_def basic_info_body_def try_except_def)
      then show ?thesis
        using R [of d2] d2(2) None by auto
    qed
  qed
  show ?thesis
    by (simp add: body)
qed


section \<open>C1: the assembled record\<close>





section \<open>C2: unresolved fields\<close>




section \<open>Properties of the numeric coercion\<close>

lemmas coercion_defs = extract_number_from_text_def clean_text_def ends_with_ci_def
  py_float_def is_digit_def nat_of_digits_def digit_val_def to_double_def ilog2_def
  round_half_even_def bitlen.simps Let_def

lemma clean_text_alphabet: "set (clean_text text) \<subseteq> set ''0123456789.KMkm''"
  by (auto simp: clean_text_def is_digit_def)

lemma clean_text_keeps:
  "clean_text (a @ b) = clean_text a @ clean_text b"
  by (simp add: clean_text_def)

lemma value_error_is_caught: "extract_number_from_text text \<noteq> Inl ValueError"
  by (auto simp: extract_number_from_text_def Let_def split: sum.splits exn.splits prod.splits)

text \<open>
  A text of digits alone whose number is \<open>2 ^ 1024\<close> or more: \<open>float\<close> returns
  infinity, and the \<open>OverflowError\<close> of \<open>int\<close> leaves the function.
\<close>

lemma bitlen_bounds: "0 < n \<Longrightarrow> 2 ^ (bitlen n - 1) \<le> n \<and> n < 2 ^ bitlen n"
proof (induction n rule: bitlen.induct)
  case (1 n)
  show ?case
  proof (cases "n div 2 = 0")
    case True
    then have "n = 1" using 1(2) by presburger
    then show ?thesis by (simp add: bitlen.simps)
  next
    case False
    then have IH: "2 ^ (bitlen (n div 2) - 1) \<le> n div 2" "n div 2 < 2 ^ bitlen (n div 2)"
      using 1 by simp_all
    have pos: "0 < bitlen (n div 2)"
      using False by (subst bitlen.simps) simp
    have b: "bitlen n = Suc (bitlen (n div 2))"
      using 1(2) by (subst bitlen.simps) simp
    have "2 * 2 ^ (bitlen (n div 2) - 1) \<le> n"
      using IH(1) by presburger
    moreover have "2 * 2 ^ (bitlen (n div 2) - 1) = (2::nat) ^ bitlen (n div 2)"
      using pos by (cases "bitlen (n div 2)") simp_all
    moreover have "n < 2 * 2 ^ bitlen (n div 2)"
      using IH(2) by presburger
    ultimately show ?thesis
      by (simp add: b)
  qed
qed

lemma to_double_overflow:
  assumes big: "2 ^ 1024 \<le> p"
  shows "to_double p 1 = PInf"
proof -
  define k where "k = bitlen p"
  have p0: "0 < p" using big by (cases p) simp_all
  have lo: "2 ^ (k - 1) \<le> p" and hi: "p < 2 ^ k"
    using bitlen_bounds [OF p0] by (simp_all add: k_def)
  have "(2::nat) ^ 1024 < 2 ^ k" using big hi by linarith
  then have k: "1024 < k" by (rule power_less_imp_less_exp [of "2::nat", rotated]) simp
  have b1: "bitlen (Suc 0) = Suc 0" by (simp add: bitlen.simps)
  have n1: "nat (int k - 1) = k - 1" and n2: "nat (1 - int k) = 0"
    using k by simp_all
  have il: "ilog2 p 1 = int k - 1"
    using lo by (simp add: ilog2_def b1 k_def [symmetric] Let_def n1 n2)
  define u where "u = k - 53"
  have u: "max (ilog2 p 1 - 52) (- 1074) = int u"
    unfolding il using k by (simp add: u_def)
  define m where "m = round_half_even p (2 ^ u)"
  have "k - 1 = 52 + u" using k by (simp add: u_def)
  then have split: "(2::nat) ^ (k - 1) = 2 ^ 52 * 2 ^ u"
    by (simp only: power_add)
  have "2 ^ 52 \<le> p div 2 ^ u"
    using lo unfolding split by (simp add: less_eq_div_iff_mult_less_eq)
  moreover have "p div 2 ^ u \<le> m"
    by (simp add: m_def round_half_even_def Let_def)
  ultimately have m52: "2 ^ 52 \<le> m" by linarith
  have val: "2 ^ 1024 \<le> m * 2 ^ u"
  proof -
    have "(2::nat) ^ 1024 \<le> 2 ^ (k - 1)"
      by (rule power_increasing) (use k in simp_all)
    also have "\<dots> = 2 ^ 52 * 2 ^ u" by (rule split)
    also have "\<dots> \<le> m * 2 ^ u" using m52 by simp
    finally show ?thesis .
  qed
  have val': "m = 2 ^ 53 \<Longrightarrow> (2::nat) ^ 1024 \<le> 2 ^ 52 * 2 ^ Suc u"
    using val by simp
  have "to_double p 1
      = (let (m', u') = (if m = 2 ^ 53 then (2 ^ 52, int u + 1) else (m, int u))
         in if m' = 0 then Fin 0 0
            else if 0 \<le> u' \<and> 2 ^ 1024 \<le> m' * 2 ^ nat u' then PInf
            else Fin (int m') u')"
    using p0 unfolding to_double_def u Let_def m_def by simp
  also have "\<dots> = PInf"
  proof (cases "m = 2 ^ 53")
    case True
    have "nat (int u + 1) = Suc u" by simp
    then show ?thesis using True val' by (simp del: power_Suc)
  next
    case False
    have "m \<noteq> 0" using m52 by auto
    then show ?thesis using False val by simp
  qed
  finally show ?thesis .
qed

lemma foldl_digits_zeros:
  "foldl (\<lambda>acc c. 10 * acc + digit_val c) a (replicate n (CHR ''0'')) = a * 10 ^ n"
  by (induction n arbitrary: a) (simp_all add: digit_val_def)

lemma py_float_digits:
  assumes "s \<noteq> []" "list_all is_digit s"
  shows "py_float s = Inr (to_double (nat_of_digits s) 1)"
proof -
  have tw: "takeWhile is_digit s = s" and dw: "dropWhile is_digit s = []"
    using assms by (simp_all add: list_all_iff)
  show ?thesis
    unfolding py_float_def Let_def tw dw using assms by simp
qed

lemma digits_overflow:
  assumes s: "s \<noteq> []" "list_all is_digit s" and big: "2 ^ 1024 \<le> nat_of_digits s"
  shows "extract_number_from_text s = Inl OverflowError"
proof -
  have c: "clean_text s = s"
    using s by (simp add: clean_text_def list_all_iff)
  have "is_digit (last s)"
    using s by (simp add: list_all_iff)
  then have e: "\<not> ends_with_ci s (CHR ''k'') (CHR ''K'')" "\<not> ends_with_ci s (CHR ''m'') (CHR ''M'')"
    by (auto simp: ends_with_ci_def is_digit_def)
  have "py_float s = Inr PInf"
    using py_float_digits [OF s] to_double_overflow [OF big] by simp
  then show ?thesis
    using s e by (simp add: extract_number_from_text_def c)
qed

text \<open>
  C3. \<open>_extract_number_from_text\<close> keeps of a count text only the digits, the
  decimal point and the suffix letters k, m, and returns \<open>int(float(number) * multiplier)\<close>
  for a final k or m. On the examples of the specification this is the number in
  thousands or millions: \<open>12.3k\<close> gives 12300, \<open>2.1m\<close> gives 2100000, \<open>1,234\<close>
  gives 1234, and \<open>N/A\<close> gives no value. It is not so on every count text. The
  product is a binary floating-point number and \<open>int\<close> truncates it, so that
  \<open>8.2m\<close> gives 8199999 and \<open>1.005k\<close> gives 1004, one less than the number written.
  And only \<open>ValueError\<close> is caught, which never leaves the function: on a text of
  310 digits \<open>float\<close> returns
  infinity, \<open>int\<close> raises \<open>OverflowError\<close>, and the exception leaves the function
  instead of the value being omitted.
\<close>

theorem numeric_coercion_truncates:
  "extract_number_from_text ''12.3k'' = Inr (Some 12300)
   \<and> extract_number_from_text ''2.1m'' = Inr (Some 2100000)
   \<and> extract_number_from_text ''1,234'' = Inr (Some 1234)
   \<and> extract_number_from_text ''N/A'' = Inr None
   \<and> extract_number_from_text ''12.5k'' = Inr (Some 12500)
   \<and> extract_number_from_text ''3.2m'' = Inr (Some 3200000)
   \<and> extract_number_from_text ''8.2m'' = Inr (Some 8199999)
   \<and> extract_number_from_text ''8.2M sold'' = Inr (Some 8199999)
   \<and> extract_number_from_text ''1.005k'' = Inr (Some 1004)
   \<and> extract_number_from_text (CHR ''1'' # replicate 309 (CHR ''0'')) = Inl OverflowError
   \<and> (\<forall>text. extract_number_from_text text \<noteq> Inl ValueError)"
proof -
  have e1: "extract_number_from_text ''12.3k'' = Inr (Some 12300)"
    by (simp add: coercion_defs)
  have e2: "extract_number_from_text ''2.1m'' = Inr (Some 2100000)"
    by (simp add: coercion_defs)
  have e3: "extract_number_from_text ''1,234'' = Inr (Some 1234)"
    by (simp add: coercion_defs)
  have e4: "extract_number_from_text ''N/A'' = Inr None"
    by (simp add: coercion_defs)
  have e5: "extract_number_from_text ''12.5k'' = Inr (Some 12500)"
    by (simp add: coercion_defs)
  have e6: "extract_number_from_text ''3.2m'' = Inr (Some 3200000)"
    by (simp add: coercion_defs)
  have f1: "extract_number_from_text ''8.2m'' = Inr (Some 8199999)"
    by (simp add: coercion_defs)
  have f2: "extract_number_from_text ''8.2M sold'' = Inr (Some 8199999)"
    by (simp add: coercion_defs)
  have f3: "extract_number_from_text ''1.005k'' = Inr (Some 1004)"
    by (simp add: coercion_defs)
  have "digit_val (CHR ''1'') = 1"
    by (simp add: digit_val_def)
  then have "nat_of_digits (CHR ''1'' # replicate 309 (CHR ''0'')) = 10 ^ 309"
    by (simp add: nat_of_digits_def foldl_digits_zeros)
  moreover have "(2::nat) ^ 1024 \<le> 10 ^ 309"
    by simp
  ultimately
  have f4: "extract_number_from_text (CHR ''1'' # replicate 309 (CHR ''0'')) = Inl OverflowError"
    by (intro digits_overflow) (simp_all add: is_digit_def list_all_iff)
  have g: "\<forall>text. extract_number_from_text text \<noteq> Inl ValueError"
    by (simp add: value_error_is_caught)
  show ?thesis
    by (intro conjI e1 e2 e3 e4 e5 e6 f1 f2 f3 f4 g)
qed


section \<open>C4: the price is the text of the first matching locator\<close>

text \<open>
  C4 (as amended). When some locator of the pricing cascade matches,
  \<open>pricing.current_price\<close> is the text of the element matched by the first locator
  that matches: its text fragments, each stripped of leading and trailing whitespace,
  the empty ones dropped, joined without a separator. Nothing is assumed of the locators
  after the first success, nor of the rest of the extractor: they are not consulted for
  the price and cannot change it, even by raising.
\<close>

theorem first_matching_price_locator:
  assumes sel: "price_selectors = pre @ s # post"
      and pre: "\<forall>s'\<in>set pre. select_one soup s' = Inr None"
      and hit: "select_one soup s = Inr (Some n)"
  shows "dict_get (extract_pricing soup) ''current_price'' = Some (VStr (get_text_strip n))"
proof -
  have c: "cascade soup price_selectors text_of = Inr (Some (VStr (get_text_strip n)))"
    unfolding sel using pre hit by (rule cascade_first) (simp add: text_of_def)
  have first: "on_res (cascade soup price_selectors text_of) (store_if ''current_price'') []
      = ([(''current_price'', VStr (get_text_strip n))], None)"
    by (simp add: c on_res_def store_if_def store_def dict_set_def)
  have "dict_get (extract_pricing soup) ''current_price''
      = dict_get [(''current_price'', VStr (get_text_strip n))] ''current_price''"
    unfolding extract_pricing_def try_except_def pricing_body_def
    using first keepsD [OF pricing_tail_keeps_current] by simp
  then show ?thesis
    by (simp add: dict_get_def)
qed

text \<open>Only the third locator matches \<^verbatim>\<open><span class="pdp-comp-price-current"> $9.99 </span>\<close>.\<close>

theorem first_matching_price_locator_witness:
  "dict_get (extract_pricing third_price_doc) ''current_price'' = Some (VStr ''$9.99'')"
  using first_matching_price_locator
    [of "[''span.product-price-value'', ''.price--currentPriceText--V8_y_b5'']"
        "''.pdp-comp-price-current''"
        "[''[data-pl=\"product-price\"] .price--current--I3Zeidd span'']"
        third_price_doc third_price_span]
  by (simp add: price_selectors_def third_price_doc_def third_price_span_def doc_defs)

text \<open>
  The claim as stated asks for the whitespace-normalized text. For
  \<^verbatim>\<open><span class="product-price-value">US  $9.99</span>\<close> the first locator matches
  and the price stored keeps both blanks, while the normalized text has one.
\<close>

theorem price_text_not_normalized:
  "select_one price_doc ''span.product-price-value'' = Inr (Some price_span)
   \<and> dict_get (extract_pricing price_doc) ''current_price'' = Some (VStr ''US  $9.99'')
   \<and> spec_whitespace_normalized (get_text price_span) = ''US $9.99''"
  by (simp add: extract_pricing_def pricing_body_def price_selectors_def
        original_price_selectors_def text_of_def bulk_price_block_def currency_block_def
        tax_block_def price_doc_def price_span_def doc_defs block_defs re_defs re_currency_def
        re_upper_def spec_whitespace_normalized_def)

section \<open>C5: the product identifier\<close>

text \<open>
  C5. \<open>_extract_product_id\<close> of the live scraper consults its three sources in order:
  the \<open>og:url\<close> meta tag whose content matches the item path, then the browser's
  current URL if there is a browser, then the first script with a \<open>productId\<close>
  variable. The first source that gives an identifier wins, and the later ones are not
  consulted: whatever they would give, or raise, does not matter. A source that raises
  while it is consulted ends the search with no identifier, the later sources not being
  tried; when no source raises the result is that of the specification's chain.
  \<open>basic_info.product_id\<close> holds the identifier found, and is absent when none was.
  The offline scraper has the first source only. When the \<open>og:url\<close> content is
  \<^verbatim>\<open>https://www.aliexpress.com/item/1005006722922099.html\<close> the identifier is
  \<open>1005006722922099\<close> in both scrapers.
\<close>

theorem product_id_priority:
  \<open>(source_og_url soup = Inr (Some i) \<longrightarrow> extract_product_id drv soup = Some i)
   \<and> (source_og_url soup = Inr None \<and> source_current_url drv = Inr (Some i) \<longrightarrow>
        extract_product_id drv soup = Some i)
   \<and> (source_og_url soup = Inr None \<and> source_current_url drv = Inr None
        \<and> source_script soup = Inr r \<longrightarrow> extract_product_id drv soup = r)
   \<and> (source_og_url soup = Inl e
        \<or> source_og_url soup = Inr None \<and> source_current_url drv = Inl e
        \<or> source_og_url soup = Inr None \<and> source_current_url drv = Inr None
           \<and> source_script soup = Inl e \<longrightarrow> extract_product_id drv soup = None)
   \<and> ((\<forall>x. source_og_url soup \<noteq> Inl x) \<and> (\<forall>x. source_current_url drv \<noteq> Inl x)
        \<and> (\<forall>x. source_script soup \<noteq> Inl x) \<longrightarrow>
        extract_product_id drv soup
          = first_successful_source
              [source_og_url soup, source_current_url drv, source_script soup])
   \<and> (find_all soup ''script'' [] None = Inr (pre @ script # post)
        \<and> (\<forall>s\<in>set pre. script_id_in (get_text s) = None)
        \<and> script_id_in (get_text script) = Some i \<longrightarrow> source_script soup = Inr (Some i))
   \<and> (find_all soup ''script'' [] None = Inr scripts
        \<and> (\<forall>s\<in>set scripts. script_id_in (get_text s) = None) \<longrightarrow>
        source_script soup = Inr None)
   \<and> ((\<forall>s\<in>set title_selectors. \<forall>x. select_one soup s \<noteq> Inl x)
        \<and> extract_product_id drv soup = Some i \<and> i \<noteq> [] \<longrightarrow>
        dict_get (extract_basic_info drv soup) ''product_id'' = Some (VStr i))
   \<and> (extract_product_id drv soup = None \<longrightarrow>
        dict_get (extract_basic_info drv soup) ''product_id'' = None)
   \<and> ((\<forall>x. find_tag soup ''h1'' [(''data-pl'', AttrIs ''product-title'')] None \<noteq> Inl x)
        \<and> find_tag soup ''meta'' [(''property'', AttrIs ''og:url'')] None = Inr (Some tag)
        \<and> get_attr_or_empty tag ''content'' = AStr u \<and> item_id_in u = Some i \<longrightarrow>
        dict_get (c_extract_basic_info (Some soup)) ''product_id'' = Some (VStr i))
   \<and> (find_tag soup ''meta'' [(''property'', AttrIs ''og:url'')] None = Inr None
        \<or> find_tag soup ''meta'' [(''property'', AttrIs ''og:url'')] None = Inr (Some tag)
           \<and> get_attr_or_empty tag ''content'' = AStr u \<and> item_id_in u = None \<longrightarrow>
        dict_get (c_extract_basic_info (Some soup)) ''product_id'' = None)
   \<and> item_id_in ''https://www.aliexpress.com/item/1005006722922099.html''
       = Some ''1005006722922099''
   \<and> script_id_in ''var data = {"productId": "1005"};'' = Some ''1005''
   \<and> script_id_in ''productId : 77, productId: 88'' = Some ''77''
   \<and> script_id_in ''var productIds = [1005];'' = None\<close>
proof -
  have a: "source_og_url soup = Inr (Some i) \<longrightarrow> extract_product_id drv soup = Some i"
    by (simp add: product_id_cases)
  have b: "source_og_url soup = Inr None \<and> source_current_url drv = Inr (Some i) \<longrightarrow>
        extract_product_id drv soup = Some i"
    by (simp add: product_id_cases)
  have c: "source_og_url soup = Inr None \<and> source_current_url drv = Inr None
        \<and> source_script soup = Inr r \<longrightarrow> extract_product_id drv soup = r"
    by (simp add: product_id_cases)
  have f: "source_og_url soup = Inl e
        \<or> source_og_url soup = Inr None \<and> source_current_url drv = Inl e
        \<or> source_og_url soup = Inr None \<and> source_current_url drv = Inr None
           \<and> source_script soup = Inl e \<longrightarrow> extract_product_id drv soup = None"
    by (auto simp: product_id_cases)
  have chain: "(\<forall>x. source_og_url soup \<noteq> Inl x) \<and> (\<forall>x. source_current_url drv \<noteq> Inl x)
        \<and> (\<forall>x. source_script soup \<noteq> Inl x) \<longrightarrow>
        extract_product_id drv soup
          = first_successful_source
              [source_og_url soup, source_current_url drv, source_script soup]"
    by (auto simp: product_id_cases first_successful_single split: sum.split option.split)
  have s1: "find_all soup ''script'' [] None = Inr (pre @ script # post)
        \<and> (\<forall>s\<in>set pre. script_id_in (get_text s) = None)
        \<and> script_id_in (get_text script) = Some i \<longrightarrow> source_script soup = Inr (Some i)"
    using first_script_id_found [of pre script i post] by (simp add: source_script_def)
  have s2: "find_all soup ''script'' [] None = Inr scripts
        \<and> (\<forall>s\<in>set scripts. script_id_in (get_text s) = None) \<longrightarrow>
        source_script soup = Inr None"
    using first_script_id_none [of scripts] by (simp add: source_script_def)
  have live: "(\<forall>s\<in>set title_selectors. \<forall>x. select_one soup s \<noteq> Inl x)
        \<and> extract_product_id drv soup = Some i \<and> i \<noteq> [] \<longrightarrow>
        dict_get (extract_basic_info drv soup) ''product_id'' = Some (VStr i)"
    using basic_info_product_id [of soup drv i] by simp
  have none: "extract_product_id drv soup = None \<longrightarrow>
        dict_get (extract_basic_info drv soup) ''product_id'' = None"
    using basic_info_no_product_id [of drv soup] by simp
  have off: "(\<forall>x. find_tag soup ''h1'' [(''data-pl'', AttrIs ''product-title'')] None \<noteq> Inl x)
        \<and> find_tag soup ''meta'' [(''property'', AttrIs ''og:url'')] None = Inr (Some tag)
        \<and> get_attr_or_empty tag ''content'' = AStr u \<and> item_id_in u = Some i \<longrightarrow>
        dict_get (c_extract_basic_info (Some soup)) ''product_id'' = Some (VStr i)"
    using c_basic_info_product_id [of soup tag u i] by simp
  have off_none: "find_tag soup ''meta'' [(''property'', AttrIs ''og:url'')] None = Inr None
        \<or> find_tag soup ''meta'' [(''property'', AttrIs ''og:url'')] None = Inr (Some tag)
           \<and> get_attr_or_empty tag ''content'' = AStr u \<and> item_id_in u = None \<longrightarrow>
        dict_get (c_extract_basic_info (Some soup)) ''product_id'' = None"
    using c_basic_info_no_product_id [of soup tag u] by blast
  have e1: \<open>script_id_in ''var data = {"productId": "1005"};'' = Some ''1005''\<close>
    by (simp add: script_id_in_def re_product_id_def re_quote_def py_isspace_def re_defs)
  have e2: "script_id_in ''productId : 77, productId: 88'' = Some ''77''"
    by (simp add: script_id_in_def re_product_id_def re_quote_def py_isspace_def re_defs)
  have e3: "script_id_in ''var productIds = [1005];'' = None"
    by (simp add: script_id_in_def re_product_id_def re_quote_def py_isspace_def re_defs)
  show ?thesis
    by (intro conjI a b c f chain s1 s2 live none off off_none item_id_example e1 e2 e3)
qed

text \<open>
  In the scenario markup the meta tag wins over the browser's URL, in both scrapers; in
  the empty markup the browser's URL gives the identifier; in the markup whose only
  identifier is in a script, and with no browser, the script gives it.
\<close>

theorem product_id_priority_witness:
  "dict_get (extract_basic_info (Some (Inr ''https://pl.aliexpress.com/item/999.html'')) og_doc)
      ''product_id'' = Some (VStr ''1005006722922099'')
   \<and> dict_get (c_extract_basic_info (Some og_doc)) ''product_id''
       = Some (VStr ''1005006722922099'')
   \<and> extract_product_id (Some (Inr ''https://pl.aliexpress.com/item/999.html'')) empty_doc
       = Some ''999''
   \<and> source_script script_id_doc = Inr (Some ''1005'')
   \<and> extract_product_id None script_id_doc = Some ''1005''
   \<and> dict_get (extract_basic_info None script_id_doc) ''product_id'' = Some (VStr ''1005'')
   \<and> dict_get (extract_basic_info None empty_doc) ''product_id'' = None"
  using product_id_priority
      [where drv = "Some (Inr ''https://pl.aliexpress.com/item/999.html'')" and soup = og_doc
         and i = "''1005006722922099''" and tag = og_meta
         and u = "''https://www.aliexpress.com/item/1005006722922099.html''"]
    product_id_priority
      [where drv = "Some (Inr ''https://pl.aliexpress.com/item/999.html'')"
         and soup = empty_doc and i = "''999''"]
    product_id_priority
      [where drv = None and soup = script_id_doc and i = "''1005''" and r = "Some ''1005''"
         and pre = "[]" and script = id_script and post = "[]"]
    product_id_priority
      [where drv = None and soup = empty_doc and r = None and scripts = "[]"]
  by (simp add: source_og_url_def source_current_url_def og_doc_def og_meta_def og_h1_def
        empty_doc_def script_id_doc_def id_script_def doc_defs title_selectors_def
        item_id_in_def re_item_id_def re_defs)

text \<open>
  The claim fails where a source raises, and in the offline scraper. In the markup whose
  only identifier is in a script, the third source gives 1005 and so does the
  specification's chain; but with a browser whose \<open>current_url\<close> raises (its window
  was closed) \<open>_extract_product_id\<close> returns nothing, the third source never being
  consulted. The offline \<open>extract_basic_info\<close> has no \<open>product_id\<close> for this markup,
  having neither the second source nor the third.
\<close>

theorem raising_source_ends_search:
  "source_script script_id_doc = Inr (Some ''1005'')
   \<and> first_successful_source
        [source_og_url script_id_doc,
         source_current_url (Some (Inl (OtherError ''no such window''))),
         source_script script_id_doc] = Some ''1005''
   \<and> extract_product_id (Some (Inl (OtherError ''no such window''))) script_id_doc = None
   \<and> dict_get (extract_basic_info (Some (Inl (OtherError ''no such window''))) script_id_doc)
        ''product_id'' = None
   \<and> dict_get (c_extract_basic_info (Some script_id_doc)) ''product_id'' = None"
  by (simp add: source_og_url_def source_current_url_def source_script_def script_id_doc_def
        id_script_def live_defs comp_defs doc_defs block_defs re_product_id_def re_quote_def
        re_defs)




section \<open>C6: at most ten individual reviews\<close>







section \<open>C7: variation options and axes\<close>

text \<open>
  C7 (as amended). In the live scraper an option of a variation axis is retained exactly
  when its descriptor has at least one of the image (with its alt text), the text, the
  selected flag or the sold-out flag, and no other key; in the offline scraper, which
  stores no text, exactly when it has at least one of the image, the selected flag or the
  sold-out flag. The options retained are those with a non-empty descriptor, in order.
  An axis with a title is stored under its name with the retained options, and is absent
  when none is retained; an axis whose options are a selected one and a sold-out one is
  retained.
\<close>

theorem variation_options_retained:
  "(select_one option ''img'' = Inr r \<longrightarrow>
      (fst (option_body option []) \<noteq> [] \<longleftrightarrow>
         (r \<noteq> None \<or> get_text_strip option \<noteq> []
          \<or> list_ex (\<lambda>cls. is_substring ''selected'' cls) (classes_of option)
          \<or> list_ex (\<lambda>cls. is_substring ''soldOut'' cls \<or> is_substring ''sold-out'' cls)
               (classes_of option))))
   \<and> set (dict_keys (fst (option_body option [])))
        \<subseteq> {''image'', ''alt_text'', ''text'', ''selected'', ''sold_out''}
   \<and> (find_tag option ''img'' [] None = Inr r \<longrightarrow>
      (fst (c_option_body option []) \<noteq> [] \<longleftrightarrow>
         (r \<noteq> None \<or> has_class ''sku-item--selected--ITGY_EO'' option
          \<or> has_class ''sku-item--soldOut--YJfuCGq'' option)))
   \<and> (options_of options = Inr os \<longrightarrow>
      os = filter (\<lambda>option_data. option_data \<noteq> [])
             (map (\<lambda>option. fst (option_body option [])) options))
   \<and> (c_options_of options = Inr cos \<longrightarrow>
      cos = filter (\<lambda>option_data. option_data \<noteq> [])
              (map (\<lambda>option. fst (c_option_body option [])) options))
   \<and> (select_one sku_item ''.sku-item--title--Z0HLO87, .variation-title'' = Inr (Some t)
       \<and> select sku_item ''[data-sku-col], .variation-option'' = Inr options
       \<and> options_of options = Inr os \<longrightarrow>
      parse_variation_item sku_item
        = (if os = [] then []
           else [(py_strip (py_remove_colons (get_text_strip t)), VList (map VDict os))]))
   \<and> (find_tag sku_item ''div'' [(''class'', AttrIs ''sku-item--title--Z0HLO87'')] None
         = Inr (Some t)
       \<and> find_all sku_item ''div'' [(''data-sku-col'', AttrTrue)] None = Inr options
       \<and> c_options_of options = Inr cos \<longrightarrow>
      c_sku_item_block sku_item d
        = (if cos = [] then (d, None)
           else (dict_set (py_remove_colons (get_text_strip t)) (VList (map VDict cos)) d,
                 None)))"
  using option_retained [of option r] option_keys [of option] c_option_retained [of option r]
    options_of_retained [of options os] c_options_of_retained [of options cos]
    variation_item_axis [of sku_item t options os] c_sku_item_axis [of sku_item t options cos d]
  by simp

text \<open>The axis with a selected and a sold-out option, and the axis with no option.\<close>

theorem variation_options_retained_witness:
  "parse_variation_item flag_axis
     = [(''Color'', VList [VDict [(''selected'', VBool True)], VDict [(''sold_out'', VBool True)]])]
   \<and> parse_variation_item bare_axis = []
   \<and> c_sku_item_block flag_axis []
       = ([(''Color'', VList [VDict [(''selected'', VBool True)],
                              VDict [(''sold_out'', VBool True)]])], None)"
  using variation_options_retained
      [of "sku_option [''sku-item--image--jMUnnGA'', ''sku-item--selected--ITGY_EO''] []" None
          "[sku_option [''sku-item--image--jMUnnGA'', ''sku-item--selected--ITGY_EO''] [],
            sku_option [''sku-item--image--jMUnnGA'', ''sku-item--soldOut--YJfuCGq''] []]"
          "[[(''selected'', VBool True)], [(''sold_out'', VBool True)]]"
          "[[(''selected'', VBool True)], [(''sold_out'', VBool True)]]"
          flag_axis
          "leaf ''div'' [(''class'', AList [''sku-item--title--Z0HLO87''])] [''Color:'']"
          "[]"]
    variation_options_retained
      [of "sku_option [] []" None "[]" "[]" "[]" bare_axis
          "leaf ''div'' [(''class'', AList [''sku-item--title--Z0HLO87''])] [''Length:'']" "[]"]
  by (simp add: variation_doc_defs doc_defs block_defs string_defs option_body_def
        c_option_body_def classes_of_def)

text \<open>
  The claim as stated retains an option only for an image, an alt text, a selected or a
  sold-out flag. The live scraper retains the two options of a size axis that have a
  text and nothing else; the offline scraper drops the axis.
\<close>

theorem text_only_options_retained:
  "extract_product_variations (variation_doc [text_axis])
     = [(''Size'', VList [VDict [(''text'', VStr ''M'')], VDict [(''text'', VStr ''L'')]])]
   \<and> c_extract_product_variations (Some (variation_doc [text_axis])) = []"
  by (simp add: live_defs comp_defs variation_doc_defs doc_defs block_defs string_defs)


section \<open>C8: the failure boundary of an extractor\<close>




section \<open>C9: embedded script data\<close>

text \<open>
  C9. \<open>_extract_javascript_data\<close> of the live scraper visits every script of the
  document and tries each of the four assignment patterns on its content: where a pattern
  matches, the parsed value of the assigned text is stored under the variable's key, and
  the assigned text itself when the parser raises; a later script replaces what an earlier
  one stored. \<open>extract_javascript_data\<close> of the offline scraper knows two of the
  variables, \<open>runParams\<close> and \<open>DCData\<close>, and has no fallback: it stores the parsed
  value, and stores nothing when the parser raises, so that the key is absent unless
  another script gave it a value.
\<close>

theorem embedded_script_data:
  "(re_search p content = Some m \<and> jl (group m 1) = Inr v \<longrightarrow>
      js_value jl p content = Some v \<and> js_parsed jl p content = Some v)
   \<and> (re_search p content = Some m \<and> jl (group m 1) = Inl e \<longrightarrow>
      js_value jl p content = Some (VStr (group m 1)) \<and> js_parsed jl p content = None)
   \<and> (find_all soup ''script'' [] None = Inr scripts \<and> (k, q) \<in> set js_patterns \<longrightarrow>
      dict_get (extract_javascript_data jl soup) k = last_stored (js_value jl q) scripts None)
   \<and> (soup_find_all csoup ''script'' [] (Some (''window'' @ bsl @ ''.runParams'')) = Inr rs
      \<longrightarrow> dict_get (c_extract_javascript_data jl csoup) ''runParams''
            = last_stored (js_parsed jl (re_js_assign ''runParams'')) rs None)
   \<and> (soup_find_all csoup ''script'' [] (Some (''window'' @ bsl @ ''.runParams'')) = Inr rs
      \<and> soup_find_all csoup ''script'' [] (Some (''window'' @ bsl @ ''._d_c_'')) = Inr ds
      \<longrightarrow> dict_get (c_extract_javascript_data jl csoup) ''DCData''
            = last_stored (js_parsed jl (re_js_assign ''_d_c_.DCData'')) ds None)"
  using javascript_data_get [of soup scripts k q jl] c_javascript_run_params [of csoup rs jl]
    c_javascript_dc_data [of csoup rs ds jl]
  by (simp add: js_value_def js_parsed_def)

text \<open>
  A document whose one script is \<^verbatim>\<open>window.runParams = {"foo": 1};\<close> gives the
  parsed mapping in both scrapers; with \<^verbatim>\<open>window.runParams = {oops};\<close> the live
  scraper stores the text \<^verbatim>\<open>{oops}\<close>.
\<close>

theorem embedded_script_data_witness:
  \<open>dict_get (extract_javascript_data json_foo (script_doc ''window.runParams = {"foo": 1};''))
       ''runParams'' = Some (VDict [(''foo'', VInt 1)])
   \<and> dict_get (extract_javascript_data json_foo (script_doc ''window.runParams = {oops};''))
       ''runParams'' = Some (VStr ''{oops}'')
   \<and> dict_get (c_extract_javascript_data json_foo
         (Some (script_doc ''window.runParams = {"foo": 1};''))) ''runParams''
       = Some (VDict [(''foo'', VInt 1)])
   \<and> dict_get (c_extract_javascript_data json_foo
         (Some (script_doc ''window.runParams = {"foo": 1};''))) ''DCData'' = None\<close>
  using embedded_script_data
      [of "re_js_assign ''runParams''" _ _ json_foo _ _
          \<open>script_doc ''window.runParams = {"foo": 1};''\<close>
          \<open>[leaf ''script'' [] [''window.runParams = {"foo": 1};'']]\<close>
          "''runParams''" "re_js_assign ''runParams''"
          \<open>Some (script_doc ''window.runParams = {"foo": 1};'')\<close>
          \<open>[leaf ''script'' [] [''window.runParams = {"foo": 1};'']]\<close> "[]"]
    embedded_script_data
      [of "re_js_assign ''runParams''" _ _ json_foo _ _
          \<open>script_doc ''window.runParams = {oops};''\<close>
          \<open>[leaf ''script'' [] [''window.runParams = {oops};'']]\<close>
          "''runParams''" "re_js_assign ''runParams''"]
  by (simp add: script_doc_def json_foo_def bsl_def doc_defs soup_find_all_def js_patterns_def
        js_value_def js_parsed_def re_js_assign_def re_any_def re_defs)

text \<open>
  The claim fails in the offline scraper: the script content matches the pattern of
  \<open>runParams\<close>, the parser rejects \<^verbatim>\<open>{oops}\<close>, and the result has no
  \<open>runParams\<close> at all, where the specification's rule keeps the text.
\<close>

theorem offline_script_data_discarded:
  \<open>js_value json_foo (re_js_assign ''runParams'') ''window.runParams = {oops};''
       = Some (VStr ''{oops}'')
   \<and> soup_find_all (Some (script_doc ''window.runParams = {oops};'')) ''script'' []
         (Some (''window'' @ bsl @ ''.runParams''))
       = Inr [leaf ''script'' [] [''window.runParams = {oops};'']]
   \<and> c_extract_javascript_data json_foo (Some (script_doc ''window.runParams = {oops};'')) = []\<close>
  by (simp add: script_doc_def json_foo_def bsl_def doc_defs soup_find_all_def comp_defs
        block_defs js_value_def re_js_assign_def re_any_def re_defs)


section \<open>C10: determinism up to provenance\<close>

text \<open>
  C10. \<open>_extract_all_data\<close> has four inputs: the markup, the source URL, the clock and
  the URL the browser is at, which \<open>_extract_product_id\<close> reads when the markup's
  \<open>og:url\<close> gives no item identifier. With the same markup, source URL and browser the
  record is the same whatever the clock, except for \<open>scraping_timestamp\<close>. With the
  same markup and source URL, two browsers give the same record when the lookup of
  \<open>og:url\<close> decides the identifier (it gives one, or raises) or when both browsers give
  the same identifier; in any case the two records can differ in \<open>basic_info\<close> only, and
  there in \<open>product_id\<close> only.
\<close>

theorem deterministic_up_to_provenance:
  "filter (\<lambda>kv. fst kv \<noteq> ''scraping_timestamp'') (extract_all_data jl drv now1 soup url)
     = filter (\<lambda>kv. fst kv \<noteq> ''scraping_timestamp'') (extract_all_data jl drv now2 soup url)
   \<and> (source_og_url soup \<noteq> Inr None \<or> source_current_url drv1 = source_current_url drv2 \<longrightarrow>
        extract_all_data jl drv1 now soup url = extract_all_data jl drv2 now soup url)
   \<and> filter (\<lambda>kv. fst kv \<noteq> ''basic_info'') (extract_all_data jl drv1 now soup url)
       = filter (\<lambda>kv. fst kv \<noteq> ''basic_info'') (extract_all_data jl drv2 now soup url)
   \<and> (k \<noteq> ''product_id'' \<longrightarrow>
        dict_get (extract_basic_info drv1 soup) k = dict_get (extract_basic_info drv2 soup) k)"
  using timestamp_only [of jl drv now1 soup url now2]
    product_id_driver_free [of soup drv1 drv2]
    same_product_id_same_record [of drv1 soup drv2 jl now url]
    driver_only_basic_info [of jl drv1 now soup url drv2]
    basic_info_other_keys [of k drv1 soup drv2]
  by blast

text \<open>
  The scenario markup has the identifier in \<open>og:url\<close>: the record is the same with a
  browser elsewhere and with no browser. The empty markup has none: the record is the same
  for two browser URLs of the same item.
\<close>

theorem deterministic_up_to_provenance_witness:
  "extract_all_data no_json (Some (Inr ''https://pl.aliexpress.com/item/999.html'')) ''T'' og_doc
       ''https://www.aliexpress.com/item/1005006722922099.html''
     = extract_all_data no_json None ''T'' og_doc
         ''https://www.aliexpress.com/item/1005006722922099.html''
   \<and> extract_all_data no_json (Some (Inr ''https://www.aliexpress.com/item/111.html'')) ''T''
         empty_doc ''https://www.aliexpress.com/item/111.html''
     = extract_all_data no_json (Some (Inr ''https://pl.aliexpress.com/item/111.html?x=1''))
         ''T'' empty_doc ''https://www.aliexpress.com/item/111.html''
   \<and> dict_get (extract_basic_info (Some (Inr ''https://www.aliexpress.com/item/111.html''))
         empty_doc) ''category''
     = dict_get (extract_basic_info (Some (Inr ''https://m.aliexpress.com/i/111.html''))
         empty_doc) ''category''"
  using deterministic_up_to_provenance
      [of no_json None "''T''" og_doc "''https://www.aliexpress.com/item/1005006722922099.html''"
          "''T''" "Some (Inr ''https://pl.aliexpress.com/item/999.html'')" None "''T''"
          "''category''"]
    deterministic_up_to_provenance
      [of no_json None "''T''" empty_doc "''https://www.aliexpress.com/item/111.html''"
          "''T''" "Some (Inr ''https://www.aliexpress.com/item/111.html'')"
          "Some (Inr ''https://pl.aliexpress.com/item/111.html?x=1'')" "''T''" "''category''"]
    deterministic_up_to_provenance
      [of no_json None "''T''" empty_doc "''https://www.aliexpress.com/item/111.html''"
          "''T''" "Some (Inr ''https://www.aliexpress.com/item/111.html'')"
          "Some (Inr ''https://m.aliexpress.com/i/111.html'')" "''T''" "''category''"]
  by (simp add: source_og_url_def source_current_url_def og_doc_def og_meta_def og_h1_def
        empty_doc_def doc_defs item_id_in_def re_item_id_def re_defs)

text \<open>
  The claim fails when the browser is a hidden input: on the empty markup, with the same
  source URL and even the same clock, the record has the \<open>product_id\<close> 111 when the
  browser is at the item's page and none when it was sent to the mobile page of the item.
\<close>

theorem browser_url_changes_record:
  "dict_get (extract_all_data no_json (Some (Inr ''https://www.aliexpress.com/item/111.html''))
        ''T'' empty_doc ''https://www.aliexpress.com/item/111.html'') ''basic_info''
     = Some (VDict [(''product_id'', VStr ''111''), (''category'', VStr ''Unknown'')])
   \<and> dict_get (extract_all_data no_json (Some (Inr ''https://m.aliexpress.com/i/111.html''))
        ''T'' empty_doc ''https://www.aliexpress.com/item/111.html'') ''basic_info''
     = Some (VDict [(''category'', VStr ''Unknown'')])"
  by (simp add: extract_all_data_def live_defs empty_doc_def doc_defs block_defs re_item_id_def
        re_defs)

end
